theory Spec2Isabelle
  imports Main
begin

section \<open>Strings, decimal formatting and UTF-8\<close>

text \<open>
  A Python \<open>str\<close> is a sequence of code points and \<open>len\<close> counts code points. It is
  modelled by \<open>string\<close>, each \<open>char\<close> standing for one code point (HOL's \<open>char\<close> has the
  code points 0..255). The storage SDK encodes a \<open>str\<close> payload as UTF-8 before it is
  written; \<open>encode_utf8\<close> is that encoding on this range, as a list of byte values.
\<close>

definition digit_char :: "nat \<Rightarrow> char" where
  "digit_char n = ''0123456789'' ! (n mod 10)"

function dec :: "nat \<Rightarrow> string" where
  "dec n = (if n < 10 then [digit_char n] else dec (n div 10) @ [digit_char (n mod 10)])"
  by pat_completeness auto
termination
  by (relation "measure id") auto

declare dec.simps [simp del]

text \<open>The conversions \<open>%02d\<close>, \<open>%04d\<close> and \<open>%06d\<close>: decimal, padded with zeros on the left.\<close>

definition zfill :: "nat \<Rightarrow> string \<Rightarrow> string" where
  "zfill w s = replicate (w - length s) (CHR ''0'') @ s"

definition ascii :: "string \<Rightarrow> bool" where
  "ascii s = list_all (\<lambda>c. (of_char c :: nat) < 128) s"

text \<open>The characters a formatted timestamp is made of.\<close>

definition timestamp_chars :: "string \<Rightarrow> bool" where
  "timestamp_chars s = list_all (\<lambda>c. c \<in> set ''0123456789-:.T+'') s"

definition line_count :: "string \<Rightarrow> nat" where
  "line_count s = length (filter (\<lambda>c. c = CHR 0x0A) s)"

definition utf8_char :: "char \<Rightarrow> nat list" where
  "utf8_char c =
     (let n = (of_char c :: nat)
      in if n < 128 then [n] else [192 + n div 64, 128 + n mod 64])"

definition encode_utf8 :: "string \<Rightarrow> nat list" where
  "encode_utf8 s = concat (map utf8_char s)"

section \<open>Timestamps\<close>

text \<open>
  \<open>datetime.utcnow()\<close> returns a naive \<open>datetime\<close> (no offset); the last-modified time
  of a blob carries an offset. \<open>utcoffset\<close> is the offset in minutes, \<open>None\<close> when naive.
  \<open>isoformat\<close> is \<open>datetime.isoformat()\<close> with its default separator and time
  specification: the microseconds are printed only when they are not zero.
\<close>

record datetime =
  year :: nat
  month :: nat
  day :: nat
  hour :: nat
  minute :: nat
  second :: nat
  microsecond :: nat
  utcoffset :: "int option"

definition format_offset :: "int option \<Rightarrow> string" where
  "format_offset off =
     (case off of
        None \<Rightarrow> []
      | Some m \<Rightarrow>
          (if m < 0 then ''-'' else ''+'')
          @ zfill 2 (dec (nat \<bar>m\<bar> div 60)) @ '':'' @ zfill 2 (dec (nat \<bar>m\<bar> mod 60)))"

definition isoformat :: "datetime \<Rightarrow> string" where
  "isoformat d =
     zfill 4 (dec (year d)) @ ''-'' @ zfill 2 (dec (month d)) @ ''-'' @ zfill 2 (dec (day d))
     @ ''T'' @ zfill 2 (dec (hour d)) @ '':'' @ zfill 2 (dec (minute d))
     @ '':'' @ zfill 2 (dec (second d))
     @ (if microsecond d = 0 then [] else ''.'' @ zfill 6 (dec (microsecond d)))
     @ format_offset (utcoffset d)"

section \<open>JSON responses\<close>

text \<open>
  A dict handed to \<open>jsonify\<close> is an association list in the order the source writes its
  keys. \<open>jsonify\<close> answers 200; \<open>return jsonify(...), 500\<close> sets the status.
\<close>

datatype json =
    JNull
  | JString string
  | JInt int
  | JArray "json list"
  | JObject "(string \<times> json) list"

record response =
  status_code :: nat
  body :: json

definition jsonify :: "(string \<times> json) list \<Rightarrow> response" where
  "jsonify d = \<lparr>status_code = 200, body = JObject d\<rparr>"

definition with_status :: "response \<Rightarrow> nat \<Rightarrow> response" where
  "with_status r code = r\<lparr>status_code := code\<rparr>"

definition json_fields :: "response \<Rightarrow> (string \<times> json) list" where
  "json_fields r = (case body r of JObject d \<Rightarrow> d | _ \<Rightarrow> [])"

text \<open>The value of a key of the envelope, and the envelope without its timestamp.\<close>

definition field :: "response \<Rightarrow> string \<Rightarrow> json option" where
  "field r k = map_of (json_fields r) k"

definition data_fields :: "response \<Rightarrow> (string \<times> json) list" where
  "data_fields r = filter (\<lambda>kv. fst kv \<noteq> ''timestamp'') (json_fields r)"

text \<open>
  A well-formed envelope: a JSON object whose keys are distinct and whose \<open>timestamp\<close> is
  a string.
\<close>

definition is_string :: "json option \<Rightarrow> bool" where
  "is_string v = (case v of Some (JString _) \<Rightarrow> True | _ \<Rightarrow> False)"

definition well_formed :: "response \<Rightarrow> bool" where
  "well_formed r =
     ((case body r of JObject d \<Rightarrow> distinct (map fst d) | _ \<Rightarrow> False)
      \<and> is_string (field r ''timestamp''))"

section \<open>The storage collaborator\<close>

text \<open>
  An exception is kept as \<open>str(e)\<close>, the one thing the handlers read of it. The blob
  service client is a record of the three SDK operations the handlers call, over a
  remote state \<open>'s\<close> that every operation may read and change. \<open>sdk_list_blobs\<close> stands for
  draining the paged iterator: \<open>Inl\<close> when the iteration raises at any point.
\<close>

type_synonym exn = string

record content_settings =
  content_type :: "string option"

record blob_properties =
  name :: string
  blob_size :: int
  last_modified :: "datetime option"
  blob_content_settings :: "content_settings option"

record 's blob_service =
  sdk_get_container_properties :: "string \<Rightarrow> 's \<Rightarrow> (exn + unit) \<times> 's"
  sdk_list_blobs :: "string \<Rightarrow> 's \<Rightarrow> (exn + blob_properties list) \<times> 's"
  sdk_upload_blob :: "string \<Rightarrow> string \<Rightarrow> string \<Rightarrow> bool \<Rightarrow> 's \<Rightarrow> (exn + unit) \<times> 's"

section \<open>Events, the clock and the world\<close>

text \<open>
  Everything the process does besides computing a response is an event of a trace, in
  the order it happens: log lines, readings of the clock, calls of the storage client,
  the construction of the client and the binding of the port.
\<close>

datatype event =
    LogInfo string
  | LogError string
  | UtcNow datetime
  | CreateClient string
  | GetContainerProperties string
  | ListBlobs string
  | UploadBlob string string string bool
  | Listen string nat

record 's world =
  clock :: "nat \<Rightarrow> datetime"
  ticks :: nat
  storage :: 's
  trace :: "event list"

definition emit :: "event \<Rightarrow> 's world \<Rightarrow> 's world" where
  "emit e w = w\<lparr>trace := trace w @ [e]\<rparr>"

definition utcnow :: "'s world \<Rightarrow> datetime \<times> 's world" where
  "utcnow w =
     (let now = (clock w (ticks w))\<lparr>utcoffset := None\<rparr>
      in (now, emit (UtcNow now) (w\<lparr>ticks := ticks w + 1\<rparr>)))"

text \<open>What the \<open>k\<close>-th next reading of the clock of a world returns.\<close>

definition reading :: "'s world \<Rightarrow> nat \<Rightarrow> datetime" where
  "reading w k = (clock w (ticks w + k))\<lparr>utcoffset := None\<rparr>"

section \<open>Configuration and startup\<close>

type_synonym env = "string \<rightharpoonup> string"

definition getenv :: "env \<Rightarrow> string \<Rightarrow> string option" where
  "getenv e k = e k"

definition getenv_default :: "env \<Rightarrow> string \<Rightarrow> string \<Rightarrow> string" where
  "getenv_default e k d = (case e k of None \<Rightarrow> d | Some v \<Rightarrow> v)"

definition account_url :: "string \<Rightarrow> string" where
  "account_url acct = ''https://'' @ acct @ ''.blob.core.windows.net''"

record 's app =
  STORAGE_ACCOUNT_NAME :: string
  CONTAINER_NAME :: string
  blob_service_client :: "'s blob_service"

datatype startup_error = ValueError string | Reraised exn

text \<open>
  The module body (lines 22 to 41) and the main block (lines 267 to 273). \<open>connect\<close> is
  the two constructor calls inside the \<open>try\<close>: the credential and the blob service client
  for a URL; \<open>is_main\<close> says whether the module runs as the main program. The result is
  the trace and either the error the process dies of or the application context.
\<close>

definition startup ::
  "env \<Rightarrow> (string \<Rightarrow> exn + 's blob_service) \<Rightarrow> bool \<Rightarrow> event list \<times> (startup_error + 's app)"
where
  "startup e connect is_main =
     (let acct_opt = getenv e ''AZURE_STORAGE_ACCOUNT_NAME'';
          cont = getenv_default e ''AZURE_STORAGE_CONTAINER_NAME'' ''data'';
          missing =
            ([LogError ''AZURE_STORAGE_ACCOUNT_NAME environment variable is not set''],
             Inl (ValueError ''AZURE_STORAGE_ACCOUNT_NAME must be set''))
      in case acct_opt of
           None \<Rightarrow> missing
         | Some acct \<Rightarrow>
             if acct = [] then missing
             else
               let url = account_url acct;
                   t1 = [LogInfo (''Initializing BlobServiceClient for '' @ url), CreateClient url]
               in (case connect url of
                     Inl err \<Rightarrow>
                       (t1 @ [LogError (''Failed to initialize BlobServiceClient: '' @ err)],
                        Inl (Reraised err))
                   | Inr client \<Rightarrow>
                       (t1 @ [LogInfo ''BlobServiceClient initialized successfully'']
                        @ (if is_main
                           then [LogInfo ''Starting AKS Storage Lab application'',
                                 LogInfo (''Storage Account: '' @ acct),
                                 LogInfo (''Container: '' @ cont),
                                 Listen ''0.0.0.0'' 8080]
                           else []),
                        Inr \<lparr>STORAGE_ACCOUNT_NAME = acct, CONTAINER_NAME = cont,
                             blob_service_client = client\<rparr>)))"

text \<open>The events of a startup trace that construct the client and bind the port.\<close>

fun is_create_client :: "event \<Rightarrow> bool" where
  "is_create_client (CreateClient u) = True"
| "is_create_client e = False"

fun is_listen :: "event \<Rightarrow> bool" where
  "is_listen (Listen h p) = True"
| "is_listen e = False"

definition started :: "event list \<times> (startup_error + 's app) \<Rightarrow> bool" where
  "started r = (case snd r of Inr a \<Rightarrow> True | Inl err \<Rightarrow> False)"

section \<open>The request handlers\<close>

text \<open>
  Each handler is the body of its \<open>try\<close> with the \<open>except Exception\<close> branch as the
  \<open>Inl\<close> case of the one storage call. \<open>get_container_client\<close> and \<open>get_blob_client\<close>
  build a client object; what they can raise is part of the outcome of the call made
  through them.
\<close>

definition health :: "'s app \<Rightarrow> 's world \<Rightarrow> response \<times> 's world" where
  "health a w =
     (let w1 = emit (GetContainerProperties (CONTAINER_NAME a)) w;
          (r, s) = sdk_get_container_properties (blob_service_client a) (CONTAINER_NAME a)
                     (storage w1);
          w2 = w1\<lparr>storage := s\<rparr>
      in case r of
           Inr u \<Rightarrow>
             (let (now, w3) = utcnow w2
              in (jsonify
                    [(''status'', JString ''healthy''),
                     (''storage_account'', JString (STORAGE_ACCOUNT_NAME a)),
                     (''container'', JString (CONTAINER_NAME a)),
                     (''authentication'', JString ''workload_identity''),
                     (''timestamp'', JString (isoformat now))],
                  w3))
         | Inl e \<Rightarrow>
             (let w3 = emit (LogError (''Health check failed: '' @ e)) w2;
                  (now, w4) = utcnow w3
              in (with_status
                    (jsonify
                       [(''status'', JString ''unhealthy''),
                        (''error'', JString e),
                        (''timestamp'', JString (isoformat now))])
                    500,
                  w4)))"

text \<open>
  The dict appended for one blob. A \<open>datetime\<close> and a \<open>ContentSettings\<close> object are
  truthy whenever they are not \<open>None\<close>, so each conditional expression is a case on the
  option.
\<close>

definition blob_entry :: "blob_properties \<Rightarrow> json" where
  "blob_entry blob =
     JObject
       [(''name'', JString (name blob)),
        (''size'', JInt (blob_size blob)),
        (''last_modified'',
           (case last_modified blob of Some d \<Rightarrow> JString (isoformat d) | None \<Rightarrow> JNull)),
        (''content_type'',
           (case blob_content_settings blob of
              Some cs \<Rightarrow> (case content_type cs of Some t \<Rightarrow> JString t | None \<Rightarrow> JNull)
            | None \<Rightarrow> JNull))]"

text \<open>The \<open>for\<close> loop of \<open>list_blobs\<close>: \<open>blobs\<close> is the list built so far.\<close>

fun append_blobs :: "blob_properties list \<Rightarrow> json list \<Rightarrow> json list" where
  "append_blobs [] blobs = blobs"
| "append_blobs (blob # rest) blobs = append_blobs rest (blobs @ [blob_entry blob])"

definition list_blobs :: "'s app \<Rightarrow> 's world \<Rightarrow> response \<times> 's world" where
  "list_blobs a w =
     (let w1 = emit (ListBlobs (CONTAINER_NAME a)) w;
          (r, s) = sdk_list_blobs (blob_service_client a) (CONTAINER_NAME a) (storage w1);
          w2 = w1\<lparr>storage := s\<rparr>
      in case r of
           Inr listing \<Rightarrow>
             (let blobs = append_blobs listing [];
                  w3 = emit (LogInfo (''Listed '' @ dec (length blobs)
                                      @ '' blobs from container '' @ CONTAINER_NAME a)) w2;
                  (now, w4) = utcnow w3
              in (jsonify
                    [(''container'', JString (CONTAINER_NAME a)),
                     (''blob_count'', JInt (int (length blobs))),
                     (''blobs'', JArray blobs),
                     (''timestamp'', JString (isoformat now))],
                  w4))
         | Inl e \<Rightarrow>
             (let w3 = emit (LogError (''Failed to list blobs: '' @ e)) w2;
                  (now, w4) = utcnow w3
              in (with_status
                    (jsonify
                       [(''error'', JString e),
                        (''timestamp'', JString (isoformat now))])
                    500,
                  w4)))"

definition upload_blob_name :: "string \<Rightarrow> string" where
  "upload_blob_name timestamp = ''test-file-'' @ timestamp @ ''.txt''"

definition upload_content :: "string \<Rightarrow> string" where
  "upload_content timestamp =
     ''Test file created at '' @ timestamp @ [CHR 0x0A]
     @ ''This file was uploaded using workload identity!'' @ [CHR 0x0A]"

definition upload_test_file :: "'s app \<Rightarrow> 's world \<Rightarrow> response \<times> 's world" where
  "upload_test_file a w =
     (let (now0, w1) = utcnow w;
          timestamp = isoformat now0;
          blob_name = upload_blob_name timestamp;
          content = upload_content timestamp;
          w2 = emit (UploadBlob (CONTAINER_NAME a) blob_name content True) w1;
          (r, s) = sdk_upload_blob (blob_service_client a) (CONTAINER_NAME a) blob_name content
                     True (storage w2);
          w3 = w2\<lparr>storage := s\<rparr>
      in case r of
           Inr u \<Rightarrow>
             (let w4 = emit (LogInfo (''Successfully uploaded blob: '' @ blob_name)) w3
              in (jsonify
                    [(''status'', JString ''success''),
                     (''blob_name'', JString blob_name),
                     (''container'', JString (CONTAINER_NAME a)),
                     (''size'', JInt (int (length content))),
                     (''message'', JString ''File uploaded successfully using managed identity''),
                     (''timestamp'', JString timestamp)],
                  w4))
         | Inl e \<Rightarrow>
             (let w4 = emit (LogError (''Failed to upload blob: '' @ e)) w3;
                  (now, w5) = utcnow w4
              in (with_status
                    (jsonify
                       [(''status'', JString ''error''),
                        (''error'', JString e),
                        (''timestamp'', JString (isoformat now))])
                    500,
                  w5)))"

text \<open>The three JSON routes: \<open>GET /health\<close>, \<open>GET /list\<close> and \<open>POST /upload\<close>.\<close>

datatype route = Health | List | Upload

fun serve :: "route \<Rightarrow> 's app \<Rightarrow> 's world \<Rightarrow> response \<times> 's world" where
  "serve Health a w = health a w"
| "serve List a w = list_blobs a w"
| "serve Upload a w = upload_test_file a w"

text \<open>The storage call a route makes, as the handler issues it, and its outcome.\<close>

fun storage_outcome :: "route \<Rightarrow> 's app \<Rightarrow> 's world \<Rightarrow> exn + unit" where
  "storage_outcome Health a w =
     fst (sdk_get_container_properties (blob_service_client a) (CONTAINER_NAME a) (storage w))"
| "storage_outcome List a w =
     map_sum id (\<lambda>_. ())
       (fst (sdk_list_blobs (blob_service_client a) (CONTAINER_NAME a) (storage w)))"
| "storage_outcome Upload a w =
     (let timestamp = isoformat (fst (utcnow w))
      in fst (sdk_upload_blob (blob_service_client a) (CONTAINER_NAME a)
                (upload_blob_name timestamp) (upload_content timestamp) True (storage w)))"

text \<open>The storage calls among the events of a trace, and the ones that write.\<close>

fun is_storage_call :: "event \<Rightarrow> bool" where
  "is_storage_call (GetContainerProperties c) = True"
| "is_storage_call (ListBlobs c) = True"
| "is_storage_call (UploadBlob c n d ov) = True"
| "is_storage_call e = False"

fun is_write :: "event \<Rightarrow> bool" where
  "is_write (UploadBlob c n d ov) = True"
| "is_write e = False"

text \<open>The events a handler adds to the trace of the world it starts from.\<close>

definition new_events :: "'s world \<Rightarrow> 's world \<Rightarrow> event list" where
  "new_events w w' = drop (length (trace w)) (trace w')"

text \<open>A client whose two reads leave the remote state as it was.\<close>

definition reads_preserve :: "'s blob_service \<Rightarrow> bool" where
  "reads_preserve svc =
     (\<forall>c s. snd (sdk_get_container_properties svc c s) = s \<and> snd (sdk_list_blobs svc c s) = s)"

section \<open>An in-memory storage account\<close>

text \<open>
  A stand-in for the storage service, for running the handlers: containers by name,
  each a list of blobs (name and text) in listing order. It follows the SDK's contract
  for the three operations: a missing container fails every call, \<open>upload_blob\<close> with
  \<open>overwrite=False\<close> fails on an existing name, and with \<open>overwrite=True\<close> replaces the
  blob's content in place. The two reads return the state as it was.
\<close>

type_synonym mem_container = "(string \<times> string) list"
type_synonym mem_store = "(string \<times> mem_container) list"

definition mem_blob :: "string \<times> string \<Rightarrow> blob_properties" where
  "mem_blob b =
     \<lparr>name = fst b, blob_size = int (length (encode_utf8 (snd b))), last_modified = None,
      blob_content_settings = None\<rparr>"

fun put_blob :: "string \<Rightarrow> string \<Rightarrow> mem_container \<Rightarrow> mem_container" where
  "put_blob n d [] = [(n, d)]"
| "put_blob n d ((m, x) # bs) = (if m = n then (m, d) # bs else (m, x) # put_blob n d bs)"

fun put_container :: "string \<Rightarrow> mem_container \<Rightarrow> mem_store \<Rightarrow> mem_store" where
  "put_container c bs [] = [(c, bs)]"
| "put_container c bs ((k, x) # st) =
     (if k = c then (k, bs) # st else (k, x) # put_container c bs st)"

definition mem_get_container_properties :: "string \<Rightarrow> mem_store \<Rightarrow> (exn + unit) \<times> mem_store" where
  "mem_get_container_properties c st =
     (case map_of st c of None \<Rightarrow> (Inl ''ContainerNotFound'', st) | Some bs \<Rightarrow> (Inr (), st))"

definition mem_list_blobs :: "string \<Rightarrow> mem_store \<Rightarrow> (exn + blob_properties list) \<times> mem_store" where
  "mem_list_blobs c st =
     (case map_of st c of
        None \<Rightarrow> (Inl ''ContainerNotFound'', st)
      | Some bs \<Rightarrow> (Inr (map mem_blob bs), st))"

definition mem_upload_blob ::
  "string \<Rightarrow> string \<Rightarrow> string \<Rightarrow> bool \<Rightarrow> mem_store \<Rightarrow> (exn + unit) \<times> mem_store"
where
  "mem_upload_blob c n d overwrite st =
     (case map_of st c of
        None \<Rightarrow> (Inl ''ContainerNotFound'', st)
      | Some bs \<Rightarrow>
          if map_of bs n \<noteq> None \<and> \<not> overwrite then (Inl ''BlobAlreadyExists'', st)
          else (Inr (), put_container c (put_blob n d bs) st))"

definition mem_service :: "mem_store blob_service" where
  "mem_service =
     \<lparr>sdk_get_container_properties = mem_get_container_properties,
      sdk_list_blobs = mem_list_blobs,
      sdk_upload_blob = mem_upload_blob\<rparr>"

text \<open>A client whose every call raises the given error, whatever the state.\<close>

definition failing_service :: "exn \<Rightarrow> 's blob_service" where
  "failing_service e =
     \<lparr>sdk_get_container_properties = (\<lambda>c st. (Inl e, st)),
      sdk_list_blobs = (\<lambda>c st. (Inl e, st)),
      sdk_upload_blob = (\<lambda>c n d ov st. (Inl e, st))\<rparr>"

section \<open>Example configurations and worlds\<close>

text \<open>
  Concrete inputs on which the handlers are run below: an environment with the variables
  under the names the specification gives them, one with the account variable the
  module reads, two client constructors, a clock that advances one second at each
  reading, and a storage account with one container holding one blob.
\<close>

definition spec_env :: env where
  "spec_env = [''STORAGE_ACCOUNT_NAME'' \<mapsto> ''acct1'', ''STORAGE_CONTAINER_NAME'' \<mapsto> ''logs'']"

definition azure_env :: env where
  "azure_env = [''AZURE_STORAGE_ACCOUNT_NAME'' \<mapsto> ''acct1'']"

definition mem_connect :: "string \<Rightarrow> exn + mem_store blob_service" where
  "mem_connect url = Inr mem_service"

definition failing_connect :: "string \<Rightarrow> exn + mem_store blob_service" where
  "failing_connect url = Inl ''no credential source''"

definition example_clock :: "nat \<Rightarrow> datetime" where
  "example_clock n =
     \<lparr>year = 2024, month = 1, day = 2, hour = 3, minute = 4, second = 5 + n, microsecond = 0,
      utcoffset = None\<rparr>"

definition example_store :: mem_store where
  "example_store = [(''data'', [(''file1.txt'', ''0123456789'')])]"

definition example_world :: "mem_store \<Rightarrow> mem_store world" where
  "example_world st = \<lparr>clock = example_clock, ticks = 0, storage = st, trace = []\<rparr>"

definition example_app :: "mem_store app" where
  "example_app =
     \<lparr>STORAGE_ACCOUNT_NAME = ''acct1'', CONTAINER_NAME = ''data'',
      blob_service_client = mem_service\<rparr>"


text \<open>
  A container listing two blobs in an order that is not alphabetical, and one that
  already holds a blob under the name the first upload of the example clock generates.
\<close>

definition two_blobs :: mem_store where
  "two_blobs = [(''data'', [(''b.txt'', ''bb''), (''a.txt'', ''a'')])]"

definition colliding_store :: mem_store where
  "colliding_store = [(''data'', [(''test-file-2024-01-02T03:04:05.txt'', ''old'')])]"

definition failing_app :: "exn \<Rightarrow> mem_store app" where
  "failing_app e = example_app\<lparr>blob_service_client := failing_service e\<rparr>"

section \<open>Formatting lemmas\<close>

lemma timestamp_chars_Nil: "timestamp_chars []"
  by (simp add: timestamp_chars_def)

lemma timestamp_chars_Cons:
  "timestamp_chars (c # s) = (c \<in> set ''0123456789-:.T+'' \<and> timestamp_chars s)"
  by (simp add: timestamp_chars_def)

lemma timestamp_chars_append:
  "timestamp_chars (xs @ ys) = (timestamp_chars xs \<and> timestamp_chars ys)"
  by (simp add: timestamp_chars_def)

lemma digit_char_set: "digit_char n \<in> set ''0123456789-:.T+''"
proof -
  have "''0123456789'' ! (n mod 10) \<in> set ''0123456789''"
    by (rule nth_mem) simp
  then have "digit_char n \<in> set ''0123456789''"
    by (simp only: digit_char_def)
  then show ?thesis
    by auto
qed

lemma timestamp_chars_dec: "timestamp_chars (dec n)"
proof (induction n rule: dec.induct)
  case (1 n)
  show ?case
  proof (cases "n < 10")
    case True
    then have "dec n = [digit_char n]"
      by (subst dec.simps) simp
    then show ?thesis
      using digit_char_set [of n] by (simp only: timestamp_chars_Cons timestamp_chars_Nil)
  next
    case False
    with 1 have "timestamp_chars (dec (n div 10))"
      by simp
    moreover from False have "dec n = dec (n div 10) @ [digit_char (n mod 10)]"
      by (subst dec.simps) simp
    ultimately show ?thesis
      using digit_char_set [of "n mod 10"]
      by (simp only: timestamp_chars_append timestamp_chars_Cons timestamp_chars_Nil)
  qed
qed

lemma timestamp_chars_zfill_dec: "timestamp_chars (zfill w (dec n))"
proof -
  have "timestamp_chars (replicate k (CHR ''0''))" for k
    by (induction k) (simp_all add: timestamp_chars_Cons timestamp_chars_Nil)
  then show ?thesis
    by (simp add: zfill_def timestamp_chars_append timestamp_chars_dec)
qed

lemma timestamp_chars_format_offset: "timestamp_chars (format_offset off)"
  by (cases off)
     (simp_all add: format_offset_def timestamp_chars_append timestamp_chars_Cons
        timestamp_chars_Nil timestamp_chars_zfill_dec)

lemma timestamp_chars_isoformat: "timestamp_chars (isoformat d)"
  by (simp add: isoformat_def timestamp_chars_append timestamp_chars_Cons timestamp_chars_Nil
        timestamp_chars_zfill_dec timestamp_chars_format_offset)

lemma timestamp_chars_ascii: "timestamp_chars s \<Longrightarrow> ascii s"
proof (induction s)
  case Nil
  show ?case by (simp add: ascii_def)
next
  case (Cons c s)
  then have "c \<in> set ''0123456789-:.T+''" and "ascii s"
    by (simp_all add: timestamp_chars_Cons)
  then show ?case
    by (auto simp add: ascii_def)
qed

lemma timestamp_chars_one_line: "timestamp_chars s \<Longrightarrow> line_count s = 0"
proof (induction s)
  case Nil
  show ?case by (simp add: line_count_def)
next
  case (Cons c s)
  then have "c \<in> set ''0123456789-:.T+''" and "line_count s = 0"
    by (simp_all add: timestamp_chars_Cons)
  then show ?case
    by (auto simp add: line_count_def)
qed

lemma ascii_upload_content: "ascii ts \<Longrightarrow> ascii (upload_content ts)"
  by (simp add: upload_content_def ascii_def)

lemma line_count_upload_content: "line_count (upload_content ts) = line_count ts + 2"
  by (simp add: upload_content_def line_count_def)

lemma length_encode_utf8: "ascii s \<Longrightarrow> length (encode_utf8 s) = length s"
  by (induction s) (simp_all add: encode_utf8_def ascii_def utf8_char_def)

lemma append_blobs_map: "append_blobs listing blobs = blobs @ map blob_entry listing"
  by (induction listing arbitrary: blobs) simp_all

section \<open>The two runs of each handler\<close>

text \<open>
  Each handler has two runs, by the outcome of its storage call: the response, and the
  world afterwards with its clock advanced, the remote state the call left and the
  events added in order.
\<close>

lemma health_ok:
  assumes "sdk_get_container_properties (blob_service_client a) (CONTAINER_NAME a) (storage w)
             = (Inr u, s)"
  shows "health a w =
     (jsonify
        [(''status'', JString ''healthy''),
         (''storage_account'', JString (STORAGE_ACCOUNT_NAME a)),
         (''container'', JString (CONTAINER_NAME a)),
         (''authentication'', JString ''workload_identity''),
         (''timestamp'', JString (isoformat (reading w 0)))],
      w\<lparr>ticks := ticks w + 1, storage := s,
        trace := trace w @ [GetContainerProperties (CONTAINER_NAME a), UtcNow (reading w 0)]\<rparr>)"
  using assms by (simp add: health_def utcnow_def emit_def reading_def Let_def)

lemma health_failed:
  assumes "sdk_get_container_properties (blob_service_client a) (CONTAINER_NAME a) (storage w)
             = (Inl e, s)"
  shows "health a w =
     (with_status
        (jsonify
           [(''status'', JString ''unhealthy''),
            (''error'', JString e),
            (''timestamp'', JString (isoformat (reading w 0)))])
        500,
      w\<lparr>ticks := ticks w + 1, storage := s,
        trace := trace w @ [GetContainerProperties (CONTAINER_NAME a),
                            LogError (''Health check failed: '' @ e), UtcNow (reading w 0)]\<rparr>)"
  using assms by (simp add: health_def utcnow_def emit_def reading_def Let_def)

lemma list_blobs_ok:
  assumes "sdk_list_blobs (blob_service_client a) (CONTAINER_NAME a) (storage w)
             = (Inr listing, s)"
  shows "list_blobs a w =
     (jsonify
        [(''container'', JString (CONTAINER_NAME a)),
         (''blob_count'', JInt (int (length listing))),
         (''blobs'', JArray (map blob_entry listing)),
         (''timestamp'', JString (isoformat (reading w 0)))],
      w\<lparr>ticks := ticks w + 1, storage := s,
        trace := trace w @ [ListBlobs (CONTAINER_NAME a),
                            LogInfo (''Listed '' @ dec (length listing)
                                     @ '' blobs from container '' @ CONTAINER_NAME a),
                            UtcNow (reading w 0)]\<rparr>)"
  using assms
  by (simp add: list_blobs_def utcnow_def emit_def reading_def Let_def append_blobs_map)

lemma list_blobs_failed:
  assumes "sdk_list_blobs (blob_service_client a) (CONTAINER_NAME a) (storage w) = (Inl e, s)"
  shows "list_blobs a w =
     (with_status
        (jsonify [(''error'', JString e), (''timestamp'', JString (isoformat (reading w 0)))])
        500,
      w\<lparr>ticks := ticks w + 1, storage := s,
        trace := trace w @ [ListBlobs (CONTAINER_NAME a),
                            LogError (''Failed to list blobs: '' @ e), UtcNow (reading w 0)]\<rparr>)"
  using assms by (simp add: list_blobs_def utcnow_def emit_def reading_def Let_def)

lemma upload_ok:
  assumes "sdk_upload_blob (blob_service_client a) (CONTAINER_NAME a)
             (upload_blob_name (isoformat (reading w 0)))
             (upload_content (isoformat (reading w 0))) True (storage w) = (Inr u, s)"
  shows "upload_test_file a w =
     (jsonify
        [(''status'', JString ''success''),
         (''blob_name'', JString (upload_blob_name (isoformat (reading w 0)))),
         (''container'', JString (CONTAINER_NAME a)),
         (''size'', JInt (int (length (upload_content (isoformat (reading w 0)))))),
         (''message'', JString ''File uploaded successfully using managed identity''),
         (''timestamp'', JString (isoformat (reading w 0)))],
      w\<lparr>ticks := ticks w + 1, storage := s,
        trace := trace w @ [UtcNow (reading w 0),
                            UploadBlob (CONTAINER_NAME a)
                              (upload_blob_name (isoformat (reading w 0)))
                              (upload_content (isoformat (reading w 0))) True,
                            LogInfo (''Successfully uploaded blob: ''
                                     @ upload_blob_name (isoformat (reading w 0)))]\<rparr>)"
  using assms by (simp add: upload_test_file_def utcnow_def emit_def reading_def Let_def)

lemma upload_failed:
  assumes "sdk_upload_blob (blob_service_client a) (CONTAINER_NAME a)
             (upload_blob_name (isoformat (reading w 0)))
             (upload_content (isoformat (reading w 0))) True (storage w) = (Inl e, s)"
  shows "upload_test_file a w =
     (with_status
        (jsonify
           [(''status'', JString ''error''),
            (''error'', JString e),
            (''timestamp'', JString (isoformat (reading w 1)))])
        500,
      w\<lparr>ticks := ticks w + 2, storage := s,
        trace := trace w @ [UtcNow (reading w 0),
                            UploadBlob (CONTAINER_NAME a)
                              (upload_blob_name (isoformat (reading w 0)))
                              (upload_content (isoformat (reading w 0))) True,
                            LogError (''Failed to upload blob: '' @ e),
                            UtcNow (reading w 1)]\<rparr>)"
  using assms by (simp add: upload_test_file_def utcnow_def emit_def reading_def Let_def)

section \<open>Startup\<close>

text \<open>The four ways the module body can run.\<close>

lemma startup_missing:
  "e ''AZURE_STORAGE_ACCOUNT_NAME'' = None \<or> e ''AZURE_STORAGE_ACCOUNT_NAME'' = Some []
   \<Longrightarrow> startup e connect is_main
        = ([LogError ''AZURE_STORAGE_ACCOUNT_NAME environment variable is not set''],
           Inl (ValueError ''AZURE_STORAGE_ACCOUNT_NAME must be set''))"
  by (auto simp add: startup_def getenv_def Let_def)

lemma startup_connect_failed:
  "e ''AZURE_STORAGE_ACCOUNT_NAME'' = Some acct \<Longrightarrow> acct \<noteq> []
   \<Longrightarrow> connect (account_url acct) = Inl err
   \<Longrightarrow> startup e connect is_main
        = ([LogInfo (''Initializing BlobServiceClient for '' @ account_url acct),
            CreateClient (account_url acct),
            LogError (''Failed to initialize BlobServiceClient: '' @ err)],
           Inl (Reraised err))"
  by (simp add: startup_def getenv_def Let_def)

lemma startup_connected:
  "e ''AZURE_STORAGE_ACCOUNT_NAME'' = Some acct \<Longrightarrow> acct \<noteq> []
   \<Longrightarrow> connect (account_url acct) = Inr client
   \<Longrightarrow> startup e connect is_main
        = ([LogInfo (''Initializing BlobServiceClient for '' @ account_url acct),
            CreateClient (account_url acct),
            LogInfo ''BlobServiceClient initialized successfully'']
           @ (if is_main
              then [LogInfo ''Starting AKS Storage Lab application'',
                    LogInfo (''Storage Account: '' @ acct),
                    LogInfo (''Container: ''
                             @ getenv_default e ''AZURE_STORAGE_CONTAINER_NAME'' ''data''),
                    Listen ''0.0.0.0'' 8080]
              else []),
           Inr \<lparr>STORAGE_ACCOUNT_NAME = acct,
                CONTAINER_NAME = getenv_default e ''AZURE_STORAGE_CONTAINER_NAME'' ''data'',
                blob_service_client = client\<rparr>)"
  by (simp add: startup_def getenv_def Let_def)

lemma startup_cases:
  obtains
    (missing) "e ''AZURE_STORAGE_ACCOUNT_NAME'' = None \<or> e ''AZURE_STORAGE_ACCOUNT_NAME'' = Some []"
  | (failed) acct err where "e ''AZURE_STORAGE_ACCOUNT_NAME'' = Some acct" "acct \<noteq> []"
      "connect (account_url acct) = Inl err"
  | (connected) acct client where "e ''AZURE_STORAGE_ACCOUNT_NAME'' = Some acct" "acct \<noteq> []"
      "connect (account_url acct) = Inr client"
proof (cases "e ''AZURE_STORAGE_ACCOUNT_NAME''")
  case None
  then show ?thesis using missing by simp
next
  case (Some acct)
  show ?thesis
  proof (cases "acct = []")
    case True
    with Some show ?thesis using missing by simp
  next
    case False
    with Some show ?thesis
      using failed connected by (cases "connect (account_url acct)") auto
  qed
qed

text \<open>
  Claim C1, as the code has it. The module reads the account name from the variable
  \<open>AZURE_STORAGE_ACCOUNT_NAME\<close> and the container name from
  \<open>AZURE_STORAGE_CONTAINER_NAME\<close>, and nothing else of the environment: two
  environments that agree on these two keys start up identically, a started application
  holds the value of the first as its account name and the value of the second as its
  container name, and the container name is \<open>data\<close> when the second is unset.
\<close>

theorem config_keys:
  "(e ''AZURE_STORAGE_ACCOUNT_NAME'' = e' ''AZURE_STORAGE_ACCOUNT_NAME''
      \<and> e ''AZURE_STORAGE_CONTAINER_NAME'' = e' ''AZURE_STORAGE_CONTAINER_NAME''
    \<longrightarrow> startup e connect is_main = startup e' connect is_main)
   \<and> (startup e connect is_main = (t, Inr a)
    \<longrightarrow> e ''AZURE_STORAGE_ACCOUNT_NAME'' = Some (STORAGE_ACCOUNT_NAME a)
        \<and> CONTAINER_NAME a
            = (case e ''AZURE_STORAGE_CONTAINER_NAME'' of None \<Rightarrow> ''data'' | Some c \<Rightarrow> c)
        \<and> (e ''AZURE_STORAGE_CONTAINER_NAME'' = None \<longrightarrow> CONTAINER_NAME a = ''data''))"
proof (intro conjI impI)
  assume "e ''AZURE_STORAGE_ACCOUNT_NAME'' = e' ''AZURE_STORAGE_ACCOUNT_NAME''
      \<and> e ''AZURE_STORAGE_CONTAINER_NAME'' = e' ''AZURE_STORAGE_CONTAINER_NAME''"
  then have "getenv e ''AZURE_STORAGE_ACCOUNT_NAME'' = getenv e' ''AZURE_STORAGE_ACCOUNT_NAME''"
    and "getenv_default e ''AZURE_STORAGE_CONTAINER_NAME'' ''data''
         = getenv_default e' ''AZURE_STORAGE_CONTAINER_NAME'' ''data''"
    by (simp_all add: getenv_def getenv_default_def)
  then show "startup e connect is_main = startup e' connect is_main"
    by (simp only: startup_def)
next
  assume run: "startup e connect is_main = (t, Inr a)"
  have "e ''AZURE_STORAGE_ACCOUNT_NAME'' = Some (STORAGE_ACCOUNT_NAME a)
        \<and> CONTAINER_NAME a = getenv_default e ''AZURE_STORAGE_CONTAINER_NAME'' ''data''"
  proof (cases rule: startup_cases [where e = e and connect = connect])
    case missing
    from startup_missing [where e = e and connect = connect and is_main = is_main, OF this] run show ?thesis by simp
  next
    case (failed acct err)
    from startup_connect_failed [where e = e and connect = connect and acct = acct and err = err and is_main = is_main, OF this] run show ?thesis by simp
  next
    case (connected acct client)
    from startup_connected [where e = e and connect = connect and acct = acct and client = client and is_main = is_main, OF this] run
    have "a = \<lparr>STORAGE_ACCOUNT_NAME = acct,
                CONTAINER_NAME = getenv_default e ''AZURE_STORAGE_CONTAINER_NAME'' ''data'',
                blob_service_client = client\<rparr>"
      by simp
    with connected show ?thesis by simp
  qed
  then show "e ''AZURE_STORAGE_ACCOUNT_NAME'' = Some (STORAGE_ACCOUNT_NAME a)"
    and "CONTAINER_NAME a
            = (case e ''AZURE_STORAGE_CONTAINER_NAME'' of None \<Rightarrow> ''data'' | Some c \<Rightarrow> c)"
    and "e ''AZURE_STORAGE_CONTAINER_NAME'' = None \<Longrightarrow> CONTAINER_NAME a = ''data''"
    by (simp_all add: getenv_default_def)
qed

text \<open>
  The theorem at the environment that sets only \<open>AZURE_STORAGE_ACCOUNT_NAME=acct1\<close>: the
  container defaults to \<open>data\<close>, and adding a variable named \<open>STORAGE_CONTAINER_NAME\<close>
  changes nothing.
\<close>

theorem config_keys_witness:
  "startup azure_env mem_connect False
     = ([LogInfo ''Initializing BlobServiceClient for https://acct1.blob.core.windows.net'',
         CreateClient ''https://acct1.blob.core.windows.net'',
         LogInfo ''BlobServiceClient initialized successfully''],
        Inr example_app)
   \<and> azure_env ''AZURE_STORAGE_CONTAINER_NAME'' = None
   \<and> azure_env ''AZURE_STORAGE_ACCOUNT_NAME'' = Some (STORAGE_ACCOUNT_NAME example_app)
   \<and> CONTAINER_NAME example_app = ''data''
   \<and> startup (azure_env(''STORAGE_CONTAINER_NAME'' \<mapsto> ''logs'')) mem_connect False
       = startup azure_env mem_connect False"
proof -
  have run: "startup azure_env mem_connect False
     = ([LogInfo ''Initializing BlobServiceClient for https://acct1.blob.core.windows.net'',
         CreateClient ''https://acct1.blob.core.windows.net'',
         LogInfo ''BlobServiceClient initialized successfully''],
        Inr example_app)"
    by (simp add: startup_def getenv_def getenv_default_def azure_env_def mem_connect_def
          example_app_def account_url_def Let_def)
  have unset: "azure_env ''AZURE_STORAGE_CONTAINER_NAME'' = None"
    by (simp add: azure_env_def)
  have same: "startup (azure_env(''STORAGE_CONTAINER_NAME'' \<mapsto> ''logs'')) mem_connect False
       = startup azure_env mem_connect False"
    using config_keys [of "azure_env(''STORAGE_CONTAINER_NAME'' \<mapsto> ''logs'')" azure_env
        mem_connect False]
    by simp
  from config_keys [of azure_env azure_env mem_connect False _ example_app] run unset same
  show ?thesis
    by simp
qed

text \<open>
  Claim C1 as the specification words it fails: with \<open>STORAGE_ACCOUNT_NAME=acct1\<close> and
  \<open>STORAGE_CONTAINER_NAME=logs\<close> set, and nothing under the \<open>AZURE_\<close> names, the module
  finds no account name and raises.
\<close>

theorem config_keys_counterexample:
  "spec_env ''STORAGE_ACCOUNT_NAME'' = Some ''acct1''
   \<and> spec_env ''STORAGE_CONTAINER_NAME'' = Some ''logs''
   \<and> startup spec_env mem_connect False
       = ([LogError ''AZURE_STORAGE_ACCOUNT_NAME environment variable is not set''],
          Inl (ValueError ''AZURE_STORAGE_ACCOUNT_NAME must be set''))"
  by (simp add: startup_def getenv_def getenv_default_def spec_env_def Let_def)

text \<open>
  Claim C3, as the code has it. Startup succeeds if and only if the account name is a
  non-empty string and the construction of the storage client for its URL succeeds.
  When the account name is missing or empty the process dies of the \<open>ValueError\<close> with
  one error line logged and nothing else done: the client is constructed only for a
  non-empty account name, and a port is bound only after a successful startup of the
  main program.
\<close>

theorem startup_iff:
  "(started (startup e connect is_main)
      \<longleftrightarrow> (\<exists>acct client. e ''AZURE_STORAGE_ACCOUNT_NAME'' = Some acct \<and> acct \<noteq> []
                          \<and> connect (account_url acct) = Inr client))
   \<and> (e ''AZURE_STORAGE_ACCOUNT_NAME'' = None \<or> e ''AZURE_STORAGE_ACCOUNT_NAME'' = Some []
      \<longrightarrow> startup e connect is_main
            = ([LogError ''AZURE_STORAGE_ACCOUNT_NAME environment variable is not set''],
               Inl (ValueError ''AZURE_STORAGE_ACCOUNT_NAME must be set'')))
   \<and> (list_ex is_create_client (fst (startup e connect is_main))
      \<longrightarrow> (\<exists>acct. e ''AZURE_STORAGE_ACCOUNT_NAME'' = Some acct \<and> acct \<noteq> []))
   \<and> (list_ex is_listen (fst (startup e connect is_main))
      \<longrightarrow> started (startup e connect is_main) \<and> is_main)"
proof (cases rule: startup_cases [where e = e and connect = connect])
  case missing
  from startup_missing [where e = e and connect = connect and is_main = is_main, OF this] missing show ?thesis
    by (auto simp add: started_def)
next
  case (failed acct err)
  from startup_connect_failed [where e = e and connect = connect and acct = acct and err = err and is_main = is_main, OF this] failed show ?thesis
    by (simp add: started_def)
next
  case (connected acct client)
  from startup_connected [where e = e and connect = connect and acct = acct and client = client and is_main = is_main, OF this] connected show ?thesis
    by (simp add: started_def)
qed

text \<open>
  The theorem at the empty environment, which aborts, and at the environment with
  \<open>AZURE_STORAGE_ACCOUNT_NAME=acct1\<close> run as the main program, which constructs the client
  and binds the port.
\<close>

theorem startup_iff_witness:
  "Map.empty ''AZURE_STORAGE_ACCOUNT_NAME'' = (None :: string option)
   \<and> startup Map.empty mem_connect True
       = ([LogError ''AZURE_STORAGE_ACCOUNT_NAME environment variable is not set''],
          Inl (ValueError ''AZURE_STORAGE_ACCOUNT_NAME must be set''))
   \<and> list_ex is_listen (fst (startup azure_env mem_connect True))
   \<and> list_ex is_create_client (fst (startup azure_env mem_connect True))
   \<and> started (startup azure_env mem_connect True)"
proof -
  have ev: "fst (startup azure_env mem_connect True)
     = [LogInfo ''Initializing BlobServiceClient for https://acct1.blob.core.windows.net'',
        CreateClient ''https://acct1.blob.core.windows.net'',
        LogInfo ''BlobServiceClient initialized successfully'',
        LogInfo ''Starting AKS Storage Lab application'',
        LogInfo ''Storage Account: acct1'',
        LogInfo ''Container: data'',
        Listen ''0.0.0.0'' 8080]"
    by (simp add: startup_def getenv_def getenv_default_def azure_env_def mem_connect_def
          account_url_def Let_def)
  from startup_iff [of Map.empty mem_connect True]
  have "startup Map.empty mem_connect True
       = ([LogError ''AZURE_STORAGE_ACCOUNT_NAME environment variable is not set''],
          Inl (ValueError ''AZURE_STORAGE_ACCOUNT_NAME must be set''))"
    by simp
  moreover from ev have l: "list_ex is_listen (fst (startup azure_env mem_connect True))"
    and c: "list_ex is_create_client (fst (startup azure_env mem_connect True))"
    by simp_all
  moreover from startup_iff [of azure_env mem_connect True] l
  have "started (startup azure_env mem_connect True)"
    by blast
  ultimately show ?thesis
    by simp
qed

text \<open>
  Claim C3 as stated fails: with the non-empty account name \<open>acct1\<close> and a client
  constructor that raises, startup logs the failure and re-raises.
\<close>

theorem startup_iff_counterexample:
  "azure_env ''AZURE_STORAGE_ACCOUNT_NAME'' = Some ''acct1''
   \<and> ''acct1'' \<noteq> []
   \<and> startup azure_env failing_connect True
       = ([LogInfo ''Initializing BlobServiceClient for https://acct1.blob.core.windows.net'',
           CreateClient ''https://acct1.blob.core.windows.net'',
           LogError ''Failed to initialize BlobServiceClient: no credential source''],
          Inl (Reraised ''no credential source''))
   \<and> \<not> started (startup azure_env failing_connect True)"
  by (simp add: startup_def started_def getenv_def getenv_default_def azure_env_def
        failing_connect_def account_url_def Let_def)

text \<open>
  Claim C8. For every non-empty account name the client is constructed exactly once, for
  the URL \<open>https://{account}.blob.core.windows.net\<close>: startup consults the constructor
  at that URL only, and every environment with the same account name gives the same
  URL, whatever else it holds.
\<close>

theorem endpoint_url:
  "e ''AZURE_STORAGE_ACCOUNT_NAME'' = Some acct \<and> acct \<noteq> []
   \<longrightarrow> filter is_create_client (fst (startup e connect is_main))
         = [CreateClient (''https://'' @ acct @ ''.blob.core.windows.net'')]
       \<and> (connect (''https://'' @ acct @ ''.blob.core.windows.net'')
            = connect' (''https://'' @ acct @ ''.blob.core.windows.net'')
          \<longrightarrow> startup e connect is_main = startup e connect' is_main)
       \<and> (e' ''AZURE_STORAGE_ACCOUNT_NAME'' = Some acct
          \<longrightarrow> filter is_create_client (fst (startup e' connect is_main))
                = filter is_create_client (fst (startup e connect is_main)))"
proof (intro impI)
  assume "e ''AZURE_STORAGE_ACCOUNT_NAME'' = Some acct \<and> acct \<noteq> []"
  then have acct: "e ''AZURE_STORAGE_ACCOUNT_NAME'' = Some acct" and ne: "acct \<noteq> []"
    by simp_all
  have url: "account_url acct = ''https://'' @ acct @ ''.blob.core.windows.net''"
    by (simp add: account_url_def)
  have created: "filter is_create_client (fst (startup x c is_main))
                   = [CreateClient (account_url acct)]"
    if "x ''AZURE_STORAGE_ACCOUNT_NAME'' = Some acct" for x and c :: "string \<Rightarrow> exn + 'a blob_service"
  proof (cases "c (account_url acct)")
    case (Inl err)
    from startup_connect_failed [where e = x and connect = c and acct = acct and err = err and is_main = is_main, OF that ne this] show ?thesis by simp
  next
    case (Inr client)
    from startup_connected [where e = x and connect = c and acct = acct and client = client and is_main = is_main, OF that ne this] show ?thesis by simp
  qed
  have "startup e connect is_main = startup e connect' is_main"
    if "connect (account_url acct) = connect' (account_url acct)"
  proof (cases "connect (account_url acct)")
    case (Inl err)
    with that have "connect' (account_url acct) = Inl err" by simp
    from startup_connect_failed [where e = e and connect = connect and acct = acct and err = err
          and is_main = is_main, OF acct ne Inl]
      startup_connect_failed [where e = e and connect = connect' and acct = acct and err = err
          and is_main = is_main, OF acct ne this]
    show ?thesis by simp
  next
    case (Inr client)
    with that have "connect' (account_url acct) = Inr client" by simp
    from startup_connected [where e = e and connect = connect and acct = acct
          and client = client and is_main = is_main, OF acct ne Inr]
      startup_connected [where e = e and connect = connect' and acct = acct
          and client = client and is_main = is_main, OF acct ne this]
    show ?thesis by simp
  qed
  with created [of e connect, OF acct] created [of e' connect]
  show "filter is_create_client (fst (startup e connect is_main))
         = [CreateClient (''https://'' @ acct @ ''.blob.core.windows.net'')]
       \<and> (connect (''https://'' @ acct @ ''.blob.core.windows.net'')
            = connect' (''https://'' @ acct @ ''.blob.core.windows.net'')
          \<longrightarrow> startup e connect is_main = startup e connect' is_main)
       \<and> (e' ''AZURE_STORAGE_ACCOUNT_NAME'' = Some acct
          \<longrightarrow> filter is_create_client (fst (startup e' connect is_main))
                = filter is_create_client (fst (startup e connect is_main)))"
    by (simp only: url) simp
qed

text \<open>
  The theorem at the account \<open>acct1\<close>, with and without a container name configured.
\<close>

theorem endpoint_url_witness:
  "azure_env ''AZURE_STORAGE_ACCOUNT_NAME'' = Some ''acct1'' \<and> ''acct1'' \<noteq> []
   \<and> filter is_create_client (fst (startup azure_env mem_connect True))
       = [CreateClient ''https://acct1.blob.core.windows.net'']
   \<and> filter is_create_client
        (fst (startup (azure_env(''AZURE_STORAGE_CONTAINER_NAME'' \<mapsto> ''logs'')) mem_connect True))
       = [CreateClient ''https://acct1.blob.core.windows.net'']"
proof -
  have acct: "azure_env ''AZURE_STORAGE_ACCOUNT_NAME'' = Some ''acct1''"
    by (simp add: azure_env_def)
  have acct': "(azure_env(''AZURE_STORAGE_CONTAINER_NAME'' \<mapsto> ''logs''))
                 ''AZURE_STORAGE_ACCOUNT_NAME'' = Some ''acct1''"
    by (simp add: azure_env_def)
  from endpoint_url [of azure_env "''acct1''" mem_connect True mem_connect
      "azure_env(''AZURE_STORAGE_CONTAINER_NAME'' \<mapsto> ''logs'')"] acct acct'
  show ?thesis
    by simp
qed

section \<open>Responses\<close>

lemma field_jsonify: "field (jsonify d) k = map_of d k"
  by (simp add: field_def json_fields_def jsonify_def)

lemma field_with_status: "field (with_status r n) k = field r k"
  by (simp add: field_def json_fields_def with_status_def)

lemma json_fields_jsonify: "json_fields (jsonify d) = d"
  by (simp add: json_fields_def jsonify_def)

lemma json_fields_with_status: "json_fields (with_status r n) = json_fields r"
  by (simp add: json_fields_def with_status_def)

lemma status_jsonify: "status_code (jsonify d) = 200"
  by (simp add: jsonify_def)

lemma status_with_status: "status_code (with_status r n) = n"
  by (simp add: with_status_def)

lemma well_formed_jsonify:
  "distinct (map fst d) \<Longrightarrow> is_string (map_of d ''timestamp'') \<Longrightarrow> well_formed (jsonify d)"
  by (simp add: well_formed_def jsonify_def field_def json_fields_def)

lemma well_formed_with_status: "well_formed (with_status r n) = well_formed r"
  by (simp add: well_formed_def with_status_def field_def json_fields_def)

text \<open>The storage calls each handler issues, and the events of an upload.\<close>

lemma health_events:
  "filter is_storage_call (new_events w (snd (health a w)))
     = [GetContainerProperties (CONTAINER_NAME a)]"
proof -
  obtain r s where call:
    "sdk_get_container_properties (blob_service_client a) (CONTAINER_NAME a) (storage w) = (r, s)"
    by (cases "sdk_get_container_properties (blob_service_client a) (CONTAINER_NAME a)
                 (storage w)")
  show ?thesis
  proof (cases r)
    case (Inl e)
    with call health_failed [of a w e s] show ?thesis
      by (simp add: new_events_def)
  next
    case (Inr u)
    with call health_ok [of a w u s] show ?thesis
      by (simp add: new_events_def)
  qed
qed

lemma list_blobs_events:
  "filter is_storage_call (new_events w (snd (list_blobs a w)))
     = [ListBlobs (CONTAINER_NAME a)]"
proof -
  obtain r s where call:
    "sdk_list_blobs (blob_service_client a) (CONTAINER_NAME a) (storage w) = (r, s)"
    by (cases "sdk_list_blobs (blob_service_client a) (CONTAINER_NAME a) (storage w)")
  show ?thesis
  proof (cases r)
    case (Inl e)
    with call list_blobs_failed [of a w e s] show ?thesis
      by (simp add: new_events_def)
  next
    case (Inr listing)
    with call list_blobs_ok [of a w listing s] show ?thesis
      by (simp add: new_events_def)
  qed
qed

lemma upload_events:
  "new_events w (snd (upload_test_file a w))
     = [UtcNow (reading w 0),
        UploadBlob (CONTAINER_NAME a) (upload_blob_name (isoformat (reading w 0)))
          (upload_content (isoformat (reading w 0))) True]
       @ (case fst (sdk_upload_blob (blob_service_client a) (CONTAINER_NAME a)
                      (upload_blob_name (isoformat (reading w 0)))
                      (upload_content (isoformat (reading w 0))) True (storage w)) of
            Inr u \<Rightarrow> [LogInfo (''Successfully uploaded blob: ''
                                @ upload_blob_name (isoformat (reading w 0)))]
          | Inl e \<Rightarrow> [LogError (''Failed to upload blob: '' @ e), UtcNow (reading w 1)])"
proof -
  obtain r s where call:
    "sdk_upload_blob (blob_service_client a) (CONTAINER_NAME a)
       (upload_blob_name (isoformat (reading w 0)))
       (upload_content (isoformat (reading w 0))) True (storage w) = (r, s)"
    by (cases "sdk_upload_blob (blob_service_client a) (CONTAINER_NAME a)
       (upload_blob_name (isoformat (reading w 0)))
       (upload_content (isoformat (reading w 0))) True (storage w)")
  show ?thesis
  proof (cases r)
    case (Inl e)
    with call upload_failed [of a w e s] show ?thesis
      by (simp add: new_events_def)
  next
    case (Inr u)
    with call upload_ok [of a w u s] show ?thesis
      by (simp add: new_events_def)
  qed
qed

section \<open>Listing\<close>

text \<open>
  Claim C2. When the enumeration of the container yields the sequence \<open>listing\<close>,
  \<open>GET /list\<close> answers 200 with exactly the fields \<open>container\<close>, \<open>blob_count\<close>, \<open>blobs\<close> and
  \<open>timestamp\<close>: \<open>blobs\<close> is the sequence mapped element by element, in its order, to
  the object of \<open>name\<close>, \<open>size\<close>, \<open>last_modified\<close> (null when the blob has none) and
  \<open>content_type\<close> (null when the blob has no content settings or they set none), and
  \<open>blob_count\<close> is the length of the sequence. The empty enumeration gives the count 0
  and the empty array.
\<close>

theorem list_blobs_projection:
  "sdk_list_blobs (blob_service_client a) (CONTAINER_NAME a) (storage w) = (Inr listing, s)
   \<longrightarrow> status_code (fst (list_blobs a w)) = 200
       \<and> json_fields (fst (list_blobs a w))
           = [(''container'', JString (CONTAINER_NAME a)),
              (''blob_count'', JInt (int (length listing))),
              (''blobs'',
               JArray
                 (map (\<lambda>blob.
                         JObject
                           [(''name'', JString (name blob)),
                            (''size'', JInt (blob_size blob)),
                            (''last_modified'',
                             (case last_modified blob of
                                None \<Rightarrow> JNull
                              | Some d \<Rightarrow> JString (isoformat d))),
                            (''content_type'',
                             (case blob_content_settings blob of
                                None \<Rightarrow> JNull
                              | Some cs \<Rightarrow>
                                  (case content_type cs of None \<Rightarrow> JNull | Some t \<Rightarrow> JString t)))])
                    listing)),
              (''timestamp'', JString (isoformat (reading w 0)))]
       \<and> (listing = []
          \<longrightarrow> field (fst (list_blobs a w)) ''blob_count'' = Some (JInt 0)
              \<and> field (fst (list_blobs a w)) ''blobs'' = Some (JArray []))"
proof (intro impI)
  assume run: "sdk_list_blobs (blob_service_client a) (CONTAINER_NAME a) (storage w)
                 = (Inr listing, s)"
  have entry: "blob_entry =
     (\<lambda>blob.
        JObject
          [(''name'', JString (name blob)),
           (''size'', JInt (blob_size blob)),
           (''last_modified'',
            (case last_modified blob of None \<Rightarrow> JNull | Some d \<Rightarrow> JString (isoformat d))),
           (''content_type'',
            (case blob_content_settings blob of
               None \<Rightarrow> JNull
             | Some cs \<Rightarrow> (case content_type cs of None \<Rightarrow> JNull | Some t \<Rightarrow> JString t)))])"
    by (rule ext) (simp add: blob_entry_def split: option.splits)
  show "status_code (fst (list_blobs a w)) = 200
       \<and> json_fields (fst (list_blobs a w))
           = [(''container'', JString (CONTAINER_NAME a)),
              (''blob_count'', JInt (int (length listing))),
              (''blobs'',
               JArray
                 (map (\<lambda>blob.
                         JObject
                           [(''name'', JString (name blob)),
                            (''size'', JInt (blob_size blob)),
                            (''last_modified'',
                             (case last_modified blob of
                                None \<Rightarrow> JNull
                              | Some d \<Rightarrow> JString (isoformat d))),
                            (''content_type'',
                             (case blob_content_settings blob of
                                None \<Rightarrow> JNull
                              | Some cs \<Rightarrow>
                                  (case content_type cs of None \<Rightarrow> JNull | Some t \<Rightarrow> JString t)))])
                    listing)),
              (''timestamp'', JString (isoformat (reading w 0)))]
       \<and> (listing = []
          \<longrightarrow> field (fst (list_blobs a w)) ''blob_count'' = Some (JInt 0)
              \<and> field (fst (list_blobs a w)) ''blobs'' = Some (JArray []))"
    unfolding list_blobs_ok [OF run] entry [symmetric]
    by (simp add: status_jsonify json_fields_jsonify field_jsonify)
qed

text \<open>
  The theorem at a container whose listing is \<open>b.txt\<close>, \<open>a.txt\<close>, which the response
  keeps in that order, and at an empty container.
\<close>

theorem list_blobs_projection_witness:
  "sdk_list_blobs (blob_service_client example_app) (CONTAINER_NAME example_app)
       (storage (example_world two_blobs))
     = (Inr [mem_blob (''b.txt'', ''bb''), mem_blob (''a.txt'', ''a'')], two_blobs)
   \<and> status_code (fst (list_blobs example_app (example_world two_blobs))) = 200
   \<and> json_fields (fst (list_blobs example_app (example_world two_blobs)))
       = [(''container'', JString ''data''),
          (''blob_count'', JInt 2),
          (''blobs'',
           JArray
             [JObject [(''name'', JString ''b.txt''), (''size'', JInt 2),
                       (''last_modified'', JNull), (''content_type'', JNull)],
              JObject [(''name'', JString ''a.txt''), (''size'', JInt 1),
                       (''last_modified'', JNull), (''content_type'', JNull)]]),
          (''timestamp'', JString ''2024-01-02T03:04:05'')]
   \<and> sdk_list_blobs (blob_service_client example_app) (CONTAINER_NAME example_app)
       (storage (example_world [(''data'', [])]))
     = (Inr [], [(''data'', [])])
   \<and> field (fst (list_blobs example_app (example_world [(''data'', [])]))) ''blob_count''
       = Some (JInt 0)
   \<and> field (fst (list_blobs example_app (example_world [(''data'', [])]))) ''blobs''
       = Some (JArray [])"
proof -
  have run: "sdk_list_blobs (blob_service_client example_app) (CONTAINER_NAME example_app)
       (storage (example_world two_blobs))
     = (Inr [mem_blob (''b.txt'', ''bb''), mem_blob (''a.txt'', ''a'')], two_blobs)"
    by (simp add: example_app_def example_world_def two_blobs_def mem_service_def
          mem_list_blobs_def)
  have run0: "sdk_list_blobs (blob_service_client example_app) (CONTAINER_NAME example_app)
       (storage (example_world [(''data'', [])]))
     = (Inr [], [(''data'', [])])"
    by (simp add: example_app_def example_world_def mem_service_def mem_list_blobs_def)
  have stamp: "isoformat (reading (example_world st) 0) = ''2024-01-02T03:04:05''" for st
    by (simp add: isoformat_def reading_def example_world_def example_clock_def zfill_def
          dec.simps digit_char_def format_offset_def)
  have app: "CONTAINER_NAME example_app = ''data''"
    by (simp add: example_app_def)
  from list_blobs_projection [of example_app "example_world two_blobs"
      "[mem_blob (''b.txt'', ''bb''), mem_blob (''a.txt'', ''a'')]" two_blobs]
    list_blobs_projection [of example_app "example_world [(''data'', [])]" "[]"
      "[(''data'', [])]"]
    run run0
  show ?thesis
    by (simp add: stamp app mem_blob_def encode_utf8_def utf8_char_def)
qed

section \<open>Upload\<close>

lemma map_of_put_container: "map_of (put_container c x st) c = Some x"
  by (induction st) auto

lemma map_of_put_blob: "map_of (put_blob n d bs) n = Some d"
  by (induction bs) auto

lemma put_blob_names: "map_of bs n = Some old \<Longrightarrow> map fst (put_blob n d bs) = map fst bs"
  by (induction bs) (auto split: if_splits)

lemma mem_upload_overwrites:
  "map_of st c = Some bs
   \<Longrightarrow> sdk_upload_blob mem_service c n d True st = (Inr (), put_container c (put_blob n d bs) st)"
  by (simp add: mem_service_def mem_upload_blob_def)

text \<open>
  Claim C4. With \<open>timestamp\<close> the ISO-8601 text of the current UTC reading of the clock,
  every \<open>POST /upload\<close> makes exactly one storage call: the write of the object
  \<open>test-file-{timestamp}.txt\<close>, the timestamp embedded as it is, with the two-line text
  embedding the same timestamp, and with \<open>overwrite=True\<close>. Against the in-memory
  account, when the container already holds an object of that name, the upload
  answers 200 and the object holds the new text, the names of the container unchanged.
\<close>

theorem upload_name_content_overwrite:
  "(let timestamp = isoformat (reading w 0);
        blob = ''test-file-'' @ timestamp @ ''.txt'';
        content = ''Test file created at '' @ timestamp @ [CHR 0x0A]
                  @ ''This file was uploaded using workload identity!'' @ [CHR 0x0A]
    in filter is_storage_call (new_events w (snd (upload_test_file a w)))
         = [UploadBlob (CONTAINER_NAME a) blob content True]
       \<and> line_count content = 2)
   \<and> (let timestamp = isoformat (reading wm 0);
          blob = ''test-file-'' @ timestamp @ ''.txt'';
          content = ''Test file created at '' @ timestamp @ [CHR 0x0A]
                    @ ''This file was uploaded using workload identity!'' @ [CHR 0x0A]
      in blob_service_client am = mem_service
         \<and> map_of (storage wm) (CONTAINER_NAME am) = Some bs \<and> map_of bs blob = Some old
         \<longrightarrow> status_code (fst (upload_test_file am wm)) = 200
             \<and> field (fst (upload_test_file am wm)) ''blob_name'' = Some (JString blob)
             \<and> map_of (storage (snd (upload_test_file am wm))) (CONTAINER_NAME am)
                 = Some (put_blob blob content bs)
             \<and> map_of (put_blob blob content bs) blob = Some content
             \<and> map fst (put_blob blob content bs) = map fst bs)"
proof -
  have name: "''test-file-'' @ ts @ ''.txt'' = upload_blob_name ts" for ts
    by (simp add: upload_blob_name_def)
  have content: "''Test file created at '' @ ts @ [CHR 0x0A]
                  @ ''This file was uploaded using workload identity!'' @ [CHR 0x0A]
                 = upload_content ts" for ts
    by (simp add: upload_content_def)
  have calls: "filter is_storage_call (new_events w (snd (upload_test_file a w)))
         = [UploadBlob (CONTAINER_NAME a) (upload_blob_name (isoformat (reading w 0)))
              (upload_content (isoformat (reading w 0))) True]"
    by (simp add: upload_events split: sum.splits)
  have lines: "line_count (upload_content (isoformat (reading w 0))) = 2"
    by (simp add: line_count_upload_content timestamp_chars_one_line timestamp_chars_isoformat)
  have over: "status_code (fst (upload_test_file am wm)) = 200
             \<and> field (fst (upload_test_file am wm)) ''blob_name''
                 = Some (JString (upload_blob_name (isoformat (reading wm 0))))
             \<and> map_of (storage (snd (upload_test_file am wm))) (CONTAINER_NAME am)
                 = Some (put_blob (upload_blob_name (isoformat (reading wm 0)))
                           (upload_content (isoformat (reading wm 0))) bs)
             \<and> map_of (put_blob (upload_blob_name (isoformat (reading wm 0)))
                           (upload_content (isoformat (reading wm 0))) bs)
                  (upload_blob_name (isoformat (reading wm 0)))
                 = Some (upload_content (isoformat (reading wm 0)))
             \<and> map fst (put_blob (upload_blob_name (isoformat (reading wm 0)))
                           (upload_content (isoformat (reading wm 0))) bs) = map fst bs"
    if svc: "blob_service_client am = mem_service"
      and cont: "map_of (storage wm) (CONTAINER_NAME am) = Some bs"
      and old: "map_of bs (upload_blob_name (isoformat (reading wm 0))) = Some old"
  proof -
    from mem_upload_overwrites [OF cont] svc
    have "sdk_upload_blob (blob_service_client am) (CONTAINER_NAME am)
            (upload_blob_name (isoformat (reading wm 0)))
            (upload_content (isoformat (reading wm 0))) True (storage wm)
          = (Inr (), put_container (CONTAINER_NAME am)
                       (put_blob (upload_blob_name (isoformat (reading wm 0)))
                          (upload_content (isoformat (reading wm 0))) bs) (storage wm))"
      by simp
    from upload_ok [OF this] put_blob_names [OF old] show ?thesis
      by (simp add: status_jsonify field_jsonify map_of_put_container map_of_put_blob)
  qed
  from calls lines over show ?thesis
    unfolding Let_def name content by blast
qed

text \<open>
  The theorem at a container that holds \<open>test-file-2024-01-02T03:04:05.txt\<close> when the
  clock reads 2024-01-02 03:04:05: the name keeps its colons and the old text is replaced.
\<close>

theorem upload_name_content_overwrite_witness:
  "blob_service_client example_app = mem_service
   \<and> map_of (storage (example_world colliding_store)) (CONTAINER_NAME example_app)
       = Some [(''test-file-2024-01-02T03:04:05.txt'', ''old'')]
   \<and> map_of [(''test-file-2024-01-02T03:04:05.txt'', ''old'')]
        ''test-file-2024-01-02T03:04:05.txt'' = Some ''old''
   \<and> status_code (fst (upload_test_file example_app (example_world colliding_store))) = 200
   \<and> field (fst (upload_test_file example_app (example_world colliding_store))) ''blob_name''
       = Some (JString ''test-file-2024-01-02T03:04:05.txt'')
   \<and> map_of (storage (snd (upload_test_file example_app (example_world colliding_store))))
        ''data''
       = Some [(''test-file-2024-01-02T03:04:05.txt'',
                ''Test file created at 2024-01-02T03:04:05'' @ [CHR 0x0A]
                @ ''This file was uploaded using workload identity!'' @ [CHR 0x0A])]"
proof -
  have stamp: "isoformat (reading (example_world st) 0) = ''2024-01-02T03:04:05''" for st
    by (simp add: isoformat_def reading_def example_world_def example_clock_def zfill_def
          dec.simps digit_char_def format_offset_def)
  have svc: "blob_service_client example_app = mem_service"
    and cont: "CONTAINER_NAME example_app = ''data''"
    by (simp_all add: example_app_def)
  have st: "map_of (storage (example_world colliding_store)) ''data''
              = Some [(''test-file-2024-01-02T03:04:05.txt'', ''old'')]"
    by (simp add: example_world_def colliding_store_def)
  from upload_name_content_overwrite [of "example_world colliding_store" example_app
      "example_world colliding_store" example_app
      "[(''test-file-2024-01-02T03:04:05.txt'', ''old'')]" "''old''"]
    svc st
  show ?thesis
    by (simp add: stamp cont Let_def)
qed

text \<open>
  Claim C5. In a successful \<open>POST /upload\<close> the \<open>size\<close> field is the number of bytes of
  the UTF-8 encoding of the content that was written: the handler takes \<open>len(content)\<close>,
  the number of code points, and the generated content is ASCII.
\<close>

theorem upload_size_is_byte_length:
  "sdk_upload_blob (blob_service_client a) (CONTAINER_NAME a)
       (upload_blob_name (isoformat (reading w 0)))
       (upload_content (isoformat (reading w 0))) True (storage w) = (Inr u, s)
   \<longrightarrow> status_code (fst (upload_test_file a w)) = 200
       \<and> filter is_storage_call (new_events w (snd (upload_test_file a w)))
           = [UploadBlob (CONTAINER_NAME a) (upload_blob_name (isoformat (reading w 0)))
                (upload_content (isoformat (reading w 0))) True]
       \<and> field (fst (upload_test_file a w)) ''size''
           = Some (JInt (int (length (encode_utf8 (upload_content (isoformat (reading w 0)))))))"
proof (intro impI)
  assume run: "sdk_upload_blob (blob_service_client a) (CONTAINER_NAME a)
       (upload_blob_name (isoformat (reading w 0)))
       (upload_content (isoformat (reading w 0))) True (storage w) = (Inr u, s)"
  have "ascii (upload_content (isoformat (reading w 0)))"
    by (intro ascii_upload_content timestamp_chars_ascii timestamp_chars_isoformat)
  then have bytes: "length (encode_utf8 (upload_content (isoformat (reading w 0))))
                      = length (upload_content (isoformat (reading w 0)))"
    by (rule length_encode_utf8)
  have calls: "filter is_storage_call (new_events w (snd (upload_test_file a w)))
           = [UploadBlob (CONTAINER_NAME a) (upload_blob_name (isoformat (reading w 0)))
                (upload_content (isoformat (reading w 0))) True]"
    by (simp add: upload_events split: sum.splits)
  from upload_ok [OF run] bytes calls
  show "status_code (fst (upload_test_file a w)) = 200
       \<and> filter is_storage_call (new_events w (snd (upload_test_file a w)))
           = [UploadBlob (CONTAINER_NAME a) (upload_blob_name (isoformat (reading w 0)))
                (upload_content (isoformat (reading w 0))) True]
       \<and> field (fst (upload_test_file a w)) ''size''
           = Some (JInt (int (length (encode_utf8 (upload_content (isoformat (reading w 0)))))))"
    by (simp add: status_jsonify field_jsonify)
qed

text \<open>The theorem at the example account: the content has 89 bytes.\<close>

theorem upload_size_is_byte_length_witness:
  "sdk_upload_blob (blob_service_client example_app) (CONTAINER_NAME example_app)
       (upload_blob_name (isoformat (reading (example_world example_store) 0)))
       (upload_content (isoformat (reading (example_world example_store) 0))) True
       (storage (example_world example_store))
     = (Inr (),
        [(''data'',
          [(''file1.txt'', ''0123456789''),
           (''test-file-2024-01-02T03:04:05.txt'',
            ''Test file created at 2024-01-02T03:04:05'' @ [CHR 0x0A]
            @ ''This file was uploaded using workload identity!'' @ [CHR 0x0A])])])
   \<and> field (fst (upload_test_file example_app (example_world example_store))) ''size''
       = Some (JInt 89)
   \<and> length (encode_utf8 (upload_content ''2024-01-02T03:04:05'')) = 89"
proof -
  have stamp: "isoformat (reading (example_world st) 0) = ''2024-01-02T03:04:05''" for st
    by (simp add: isoformat_def reading_def example_world_def example_clock_def zfill_def
          dec.simps digit_char_def format_offset_def)
  have run: "sdk_upload_blob (blob_service_client example_app) (CONTAINER_NAME example_app)
       (upload_blob_name ''2024-01-02T03:04:05'')
       (upload_content ''2024-01-02T03:04:05'') True
       (storage (example_world example_store))
     = (Inr (),
        [(''data'',
          [(''file1.txt'', ''0123456789''),
           (''test-file-2024-01-02T03:04:05.txt'',
            ''Test file created at 2024-01-02T03:04:05'' @ [CHR 0x0A]
            @ ''This file was uploaded using workload identity!'' @ [CHR 0x0A])])])"
    by (simp add: example_app_def example_world_def example_store_def mem_service_def
          mem_upload_blob_def upload_blob_name_def upload_content_def)
  have len: "length (encode_utf8 (upload_content ''2024-01-02T03:04:05'')) = 89"
    by (simp add: upload_content_def encode_utf8_def utf8_char_def)
  from upload_size_is_byte_length [of example_app "example_world example_store" "()"
      "[(''data'',
          [(''file1.txt'', ''0123456789''),
           (''test-file-2024-01-02T03:04:05.txt'',
            ''Test file created at 2024-01-02T03:04:05'' @ [CHR 0x0A]
            @ ''This file was uploaded using workload identity!'' @ [CHR 0x0A])])]"]
    run len
  show ?thesis
    by (simp add: stamp)
qed

text \<open>
  Claim C10. In a successful \<open>POST /upload\<close> the \<open>timestamp\<close> field is the timestamp of
  the returned \<open>blob_name\<close> and of the content written: the clock is read once, before
  the storage call. In a failed one the clock is read a second time after the call, and
  the \<open>timestamp\<close> field is that second reading; with the example clock it differs from
  the timestamp of the name that was generated.
\<close>

theorem upload_timestamp_once:
  "(let timestamp = isoformat (reading w 0);
        blob = ''test-file-'' @ timestamp @ ''.txt'';
        content = ''Test file created at '' @ timestamp @ [CHR 0x0A]
                  @ ''This file was uploaded using workload identity!'' @ [CHR 0x0A]
    in case fst (sdk_upload_blob (blob_service_client a) (CONTAINER_NAME a) blob content True
                   (storage w)) of
         Inr u \<Rightarrow>
           field (fst (upload_test_file a w)) ''timestamp'' = Some (JString timestamp)
           \<and> field (fst (upload_test_file a w)) ''blob_name'' = Some (JString blob)
           \<and> new_events w (snd (upload_test_file a w))
               = [UtcNow (reading w 0), UploadBlob (CONTAINER_NAME a) blob content True,
                  LogInfo (''Successfully uploaded blob: '' @ blob)]
           \<and> ticks (snd (upload_test_file a w)) = ticks w + 1
       | Inl e \<Rightarrow>
           field (fst (upload_test_file a w)) ''timestamp''
             = Some (JString (isoformat (reading w 1)))
           \<and> new_events w (snd (upload_test_file a w))
               = [UtcNow (reading w 0), UploadBlob (CONTAINER_NAME a) blob content True,
                  LogError (''Failed to upload blob: '' @ e), UtcNow (reading w 1)]
           \<and> ticks (snd (upload_test_file a w)) = ticks w + 2)
   \<and> filter is_storage_call
        (new_events (example_world example_store)
           (snd (upload_test_file (failing_app ''denied'') (example_world example_store))))
       = [UploadBlob ''data'' ''test-file-2024-01-02T03:04:05.txt''
            (''Test file created at 2024-01-02T03:04:05'' @ [CHR 0x0A]
             @ ''This file was uploaded using workload identity!'' @ [CHR 0x0A]) True]
   \<and> field (fst (upload_test_file (failing_app ''denied'') (example_world example_store)))
        ''timestamp'' = Some (JString ''2024-01-02T03:04:06'')"
proof -
  have name: "''test-file-'' @ ts @ ''.txt'' = upload_blob_name ts" for ts
    by (simp add: upload_blob_name_def)
  have content: "''Test file created at '' @ ts @ [CHR 0x0A]
                  @ ''This file was uploaded using workload identity!'' @ [CHR 0x0A]
                 = upload_content ts" for ts
    by (simp add: upload_content_def)
  obtain res s where call:
    "sdk_upload_blob (blob_service_client a) (CONTAINER_NAME a)
       (upload_blob_name (isoformat (reading w 0)))
       (upload_content (isoformat (reading w 0))) True (storage w) = (res, s)"
    by (cases "sdk_upload_blob (blob_service_client a) (CONTAINER_NAME a)
       (upload_blob_name (isoformat (reading w 0)))
       (upload_content (isoformat (reading w 0))) True (storage w)")
  have general: "case fst (sdk_upload_blob (blob_service_client a) (CONTAINER_NAME a)
                   (upload_blob_name (isoformat (reading w 0)))
                   (upload_content (isoformat (reading w 0))) True (storage w)) of
         Inr u \<Rightarrow>
           field (fst (upload_test_file a w)) ''timestamp''
             = Some (JString (isoformat (reading w 0)))
           \<and> field (fst (upload_test_file a w)) ''blob_name''
               = Some (JString (upload_blob_name (isoformat (reading w 0))))
           \<and> new_events w (snd (upload_test_file a w))
               = [UtcNow (reading w 0),
                  UploadBlob (CONTAINER_NAME a) (upload_blob_name (isoformat (reading w 0)))
                    (upload_content (isoformat (reading w 0))) True,
                  LogInfo (''Successfully uploaded blob: ''
                           @ upload_blob_name (isoformat (reading w 0)))]
           \<and> ticks (snd (upload_test_file a w)) = ticks w + 1
       | Inl e \<Rightarrow>
           field (fst (upload_test_file a w)) ''timestamp''
             = Some (JString (isoformat (reading w 1)))
           \<and> new_events w (snd (upload_test_file a w))
               = [UtcNow (reading w 0),
                  UploadBlob (CONTAINER_NAME a) (upload_blob_name (isoformat (reading w 0)))
                    (upload_content (isoformat (reading w 0))) True,
                  LogError (''Failed to upload blob: '' @ e), UtcNow (reading w 1)]
           \<and> ticks (snd (upload_test_file a w)) = ticks w + 2"
  proof (cases res)
    case (Inl e)
    with call upload_failed [of a w e s] show ?thesis
      by (simp add: new_events_def field_with_status field_jsonify)
  next
    case (Inr u)
    with call upload_ok [of a w u s] show ?thesis
      by (simp add: new_events_def field_jsonify)
  qed
  have stamp0: "isoformat (reading (example_world example_store) 0) = ''2024-01-02T03:04:05''"
    and stamp1: "isoformat (reading (example_world example_store) (Suc 0))
                   = ''2024-01-02T03:04:06''"
    by (simp_all add: isoformat_def reading_def example_world_def example_clock_def zfill_def
          dec.simps digit_char_def format_offset_def)
  have denied: "sdk_upload_blob (blob_service_client (failing_app ''denied''))
       (CONTAINER_NAME (failing_app ''denied''))
       (upload_blob_name (isoformat (reading (example_world example_store) 0)))
       (upload_content (isoformat (reading (example_world example_store) 0))) True
       (storage (example_world example_store)) = (Inl ''denied'', example_store)"
    by (simp add: failing_app_def failing_service_def example_world_def)
  have cont: "CONTAINER_NAME (failing_app ''denied'') = ''data''"
    by (simp add: failing_app_def example_app_def)
  from upload_failed [OF denied]
  have example: "filter is_storage_call
        (new_events (example_world example_store)
           (snd (upload_test_file (failing_app ''denied'') (example_world example_store))))
       = [UploadBlob ''data'' (upload_blob_name ''2024-01-02T03:04:05'')
            (upload_content ''2024-01-02T03:04:05'') True]
     \<and> field (fst (upload_test_file (failing_app ''denied'') (example_world example_store)))
        ''timestamp'' = Some (JString ''2024-01-02T03:04:06'')"
    by (simp add: new_events_def field_with_status field_jsonify stamp0 stamp1 cont)
  from general example show ?thesis
    unfolding Let_def name content
    by (simp add: upload_blob_name_def upload_content_def)
qed

text \<open>The theorem at a successful upload to the example account.\<close>

theorem upload_timestamp_once_witness:
  "fst (sdk_upload_blob (blob_service_client example_app) (CONTAINER_NAME example_app)
          ''test-file-2024-01-02T03:04:05.txt''
          (''Test file created at 2024-01-02T03:04:05'' @ [CHR 0x0A]
           @ ''This file was uploaded using workload identity!'' @ [CHR 0x0A]) True
          (storage (example_world example_store))) = Inr ()
   \<and> field (fst (upload_test_file example_app (example_world example_store))) ''timestamp''
       = Some (JString ''2024-01-02T03:04:05'')
   \<and> field (fst (upload_test_file example_app (example_world example_store))) ''blob_name''
       = Some (JString ''test-file-2024-01-02T03:04:05.txt'')
   \<and> ticks (snd (upload_test_file example_app (example_world example_store))) = 1"
proof -
  have stamp0: "isoformat (reading (example_world example_store) 0) = ''2024-01-02T03:04:05''"
    by (simp add: isoformat_def reading_def example_world_def example_clock_def zfill_def
          dec.simps digit_char_def format_offset_def)
  have run: "fst (sdk_upload_blob (blob_service_client example_app)
          (CONTAINER_NAME example_app)
          ''test-file-2024-01-02T03:04:05.txt''
          (''Test file created at 2024-01-02T03:04:05'' @ [CHR 0x0A]
           @ ''This file was uploaded using workload identity!'' @ [CHR 0x0A]) True
          (storage (example_world example_store))) = Inr ()"
    by (simp add: example_app_def example_world_def example_store_def mem_service_def
          mem_upload_blob_def)
  have t0: "ticks (example_world example_store) = 0"
    by (simp add: example_world_def)
  from upload_timestamp_once [of "example_world example_store" example_app] run
  show ?thesis
    by (simp add: stamp0 t0 Let_def)
qed

section \<open>Health\<close>

text \<open>
  Claim C6, as the code has it. \<open>GET /health\<close> answers 200 with exactly the fields
  \<open>status\<close> (healthy), \<open>storage_account\<close>, \<open>container\<close>, \<open>authentication\<close>
  (workload_identity) and \<open>timestamp\<close> when the read of the container properties
  succeeds, and 500 with exactly \<open>status\<close> (unhealthy), \<open>error\<close> and \<open>timestamp\<close> when it
  raises, \<open>error\<close> being the message of the error as it is. Either way the handler makes
  exactly one storage call.
\<close>

theorem health_contract:
  "(sdk_get_container_properties (blob_service_client a) (CONTAINER_NAME a) (storage w)
      = (Inr u, s)
    \<longrightarrow> status_code (fst (health a w)) = 200
        \<and> json_fields (fst (health a w))
            = [(''status'', JString ''healthy''),
               (''storage_account'', JString (STORAGE_ACCOUNT_NAME a)),
               (''container'', JString (CONTAINER_NAME a)),
               (''authentication'', JString ''workload_identity''),
               (''timestamp'', JString (isoformat (reading w 0)))])
   \<and> (sdk_get_container_properties (blob_service_client a) (CONTAINER_NAME a) (storage w)
      = (Inl e, s)
    \<longrightarrow> status_code (fst (health a w)) = 500
        \<and> json_fields (fst (health a w))
            = [(''status'', JString ''unhealthy''),
               (''error'', JString e),
               (''timestamp'', JString (isoformat (reading w 0)))])
   \<and> filter is_storage_call (new_events w (snd (health a w)))
       = [GetContainerProperties (CONTAINER_NAME a)]"
proof (intro conjI impI)
  assume "sdk_get_container_properties (blob_service_client a) (CONTAINER_NAME a) (storage w)
            = (Inr u, s)"
  from health_ok [OF this]
  show "status_code (fst (health a w)) = 200"
    and "json_fields (fst (health a w))
            = [(''status'', JString ''healthy''),
               (''storage_account'', JString (STORAGE_ACCOUNT_NAME a)),
               (''container'', JString (CONTAINER_NAME a)),
               (''authentication'', JString ''workload_identity''),
               (''timestamp'', JString (isoformat (reading w 0)))]"
    by (simp_all add: status_jsonify json_fields_jsonify)
next
  assume "sdk_get_container_properties (blob_service_client a) (CONTAINER_NAME a) (storage w)
            = (Inl e, s)"
  from health_failed [OF this]
  show "status_code (fst (health a w)) = 500"
    and "json_fields (fst (health a w))
            = [(''status'', JString ''unhealthy''),
               (''error'', JString e),
               (''timestamp'', JString (isoformat (reading w 0)))]"
    by (simp_all add: status_with_status json_fields_with_status json_fields_jsonify)
next
  show "filter is_storage_call (new_events w (snd (health a w)))
          = [GetContainerProperties (CONTAINER_NAME a)]"
    by (rule health_events)
qed

text \<open>
  The theorem at the example account, whose container exists, and at an account without
  the container.
\<close>

theorem health_contract_witness:
  "sdk_get_container_properties (blob_service_client example_app) (CONTAINER_NAME example_app)
       (storage (example_world example_store)) = (Inr (), example_store)
   \<and> status_code (fst (health example_app (example_world example_store))) = 200
   \<and> json_fields (fst (health example_app (example_world example_store)))
       = [(''status'', JString ''healthy''),
          (''storage_account'', JString ''acct1''),
          (''container'', JString ''data''),
          (''authentication'', JString ''workload_identity''),
          (''timestamp'', JString ''2024-01-02T03:04:05'')]
   \<and> sdk_get_container_properties (blob_service_client example_app)
       (CONTAINER_NAME example_app) (storage (example_world [])) = (Inl ''ContainerNotFound'', [])
   \<and> status_code (fst (health example_app (example_world []))) = 500
   \<and> json_fields (fst (health example_app (example_world [])))
       = [(''status'', JString ''unhealthy''),
          (''error'', JString ''ContainerNotFound''),
          (''timestamp'', JString ''2024-01-02T03:04:05'')]"
proof -
  have stamp: "isoformat (reading (example_world st) 0) = ''2024-01-02T03:04:05''" for st
    by (simp add: isoformat_def reading_def example_world_def example_clock_def zfill_def
          dec.simps digit_char_def format_offset_def)
  have ok: "sdk_get_container_properties (blob_service_client example_app)
       (CONTAINER_NAME example_app) (storage (example_world example_store))
       = (Inr (), example_store)"
    by (simp add: example_app_def example_world_def example_store_def mem_service_def
          mem_get_container_properties_def)
  have bad: "sdk_get_container_properties (blob_service_client example_app)
       (CONTAINER_NAME example_app) (storage (example_world [])) = (Inl ''ContainerNotFound'', [])"
    by (simp add: example_app_def example_world_def mem_service_def
          mem_get_container_properties_def)
  have app: "STORAGE_ACCOUNT_NAME example_app = ''acct1''" "CONTAINER_NAME example_app = ''data''"
    by (simp_all add: example_app_def)
  from health_contract [where a = example_app and w = "example_world example_store"
      and u = "()" and s = example_store]
    health_contract [where a = example_app and w = "example_world []"
      and e = "''ContainerNotFound''" and s = "[]"]
    ok bad
  show ?thesis
    by (simp add: stamp app)
qed

text \<open>
  Claim C6 as stated fails where it promises a non-empty message: the read raising an
  error whose message is empty is answered 500 with the empty \<open>error\<close>.
\<close>

theorem health_contract_counterexample:
  "sdk_get_container_properties (blob_service_client (failing_app []))
       (CONTAINER_NAME (failing_app [])) (storage (example_world example_store))
     = (Inl [], example_store)
   \<and> status_code (fst (health (failing_app []) (example_world example_store))) = 500
   \<and> field (fst (health (failing_app []) (example_world example_store))) ''error''
       = Some (JString [])"
proof -
  have call: "sdk_get_container_properties (blob_service_client (failing_app []))
       (CONTAINER_NAME (failing_app [])) (storage (example_world example_store))
     = (Inl [], example_store)"
    by (simp add: failing_app_def failing_service_def example_world_def)
  from health_failed [OF call] call show ?thesis
    by (simp add: status_with_status field_with_status field_jsonify)
qed

section \<open>Every outcome is an envelope\<close>

text \<open>
  Claim C7. For each of the three routes and every outcome of its storage call, the
  handler returns a response: a JSON object with distinct keys and a \<open>timestamp\<close> string,
  with status 200 and no \<open>error\<close> field when the call succeeds, and with status 500 and
  the \<open>error\<close> field holding the message of the error when it raises.
\<close>

theorem no_error_escapes:
  "well_formed (fst (serve r a w))
   \<and> (case storage_outcome r a w of
        Inr u \<Rightarrow>
          status_code (fst (serve r a w)) = 200 \<and> field (fst (serve r a w)) ''error'' = None
      | Inl e \<Rightarrow>
          status_code (fst (serve r a w)) = 500
          \<and> field (fst (serve r a w)) ''error'' = Some (JString e))"
proof (cases r)
  case Health
  obtain res s where call:
    "sdk_get_container_properties (blob_service_client a) (CONTAINER_NAME a) (storage w)
       = (res, s)"
    by (cases "sdk_get_container_properties (blob_service_client a) (CONTAINER_NAME a)
                 (storage w)")
  show ?thesis
  proof (cases res)
    case (Inl e)
    with call health_failed [of a w e s] Health show ?thesis
      by (simp add: well_formed_with_status well_formed_jsonify is_string_def
            status_with_status field_with_status field_jsonify)
  next
    case (Inr u)
    with call health_ok [of a w u s] Health show ?thesis
      by (simp add: well_formed_jsonify is_string_def status_jsonify field_jsonify)
  qed
next
  case List
  obtain res s where call:
    "sdk_list_blobs (blob_service_client a) (CONTAINER_NAME a) (storage w) = (res, s)"
    by (cases "sdk_list_blobs (blob_service_client a) (CONTAINER_NAME a) (storage w)")
  show ?thesis
  proof (cases res)
    case (Inl e)
    with call list_blobs_failed [of a w e s] List show ?thesis
      by (simp add: well_formed_with_status well_formed_jsonify is_string_def
            status_with_status field_with_status field_jsonify)
  next
    case (Inr listing)
    with call list_blobs_ok [of a w listing s] List show ?thesis
      by (simp add: well_formed_jsonify is_string_def status_jsonify field_jsonify)
  qed
next
  case Upload
  have now: "fst (utcnow w) = reading w 0"
    by (simp add: utcnow_def reading_def Let_def)
  obtain res s where call:
    "sdk_upload_blob (blob_service_client a) (CONTAINER_NAME a)
       (upload_blob_name (isoformat (reading w 0)))
       (upload_content (isoformat (reading w 0))) True (storage w) = (res, s)"
    by (cases "sdk_upload_blob (blob_service_client a) (CONTAINER_NAME a)
       (upload_blob_name (isoformat (reading w 0)))
       (upload_content (isoformat (reading w 0))) True (storage w)")
  show ?thesis
  proof (cases res)
    case (Inl e)
    with call upload_failed [of a w e s] Upload show ?thesis
      by (simp add: now well_formed_with_status well_formed_jsonify is_string_def
            status_with_status field_with_status field_jsonify)
  next
    case (Inr u)
    with call upload_ok [of a w u s] Upload show ?thesis
      by (simp add: now well_formed_jsonify is_string_def status_jsonify field_jsonify)
  qed
qed

text \<open>
  The theorem at an upload to an account without the container, and at a listing of the
  example account.
\<close>

theorem no_error_escapes_witness:
  "storage_outcome Upload example_app (example_world []) = Inl ''ContainerNotFound''
   \<and> well_formed (fst (serve Upload example_app (example_world [])))
   \<and> status_code (fst (serve Upload example_app (example_world []))) = 500
   \<and> field (fst (serve Upload example_app (example_world []))) ''error''
       = Some (JString ''ContainerNotFound'')
   \<and> storage_outcome List example_app (example_world example_store) = Inr ()
   \<and> well_formed (fst (serve List example_app (example_world example_store)))
   \<and> status_code (fst (serve List example_app (example_world example_store))) = 200"
proof -
  have up: "storage_outcome Upload example_app (example_world []) = Inl ''ContainerNotFound''"
    by (simp add: example_app_def example_world_def mem_service_def mem_upload_blob_def)
  have ls: "storage_outcome List example_app (example_world example_store) = Inr ()"
    by (simp add: example_app_def example_world_def example_store_def mem_service_def
          mem_list_blobs_def)
  from no_error_escapes [of Upload example_app "example_world []"]
    no_error_escapes [of List example_app "example_world example_store"] up ls
  show ?thesis
    by simp
qed

section \<open>The two reads\<close>

lemma write_is_storage_call: "is_write e \<Longrightarrow> is_storage_call e"
  by (cases e) simp_all

lemma writes_among_storage_calls:
  "list_ex is_write es = list_ex is_write (filter is_storage_call es)"
  by (induction es) (auto dest: write_is_storage_call)

lemma read_makes_no_write:
  assumes "r \<noteq> Upload"
  shows "\<not> list_ex is_write (new_events w (snd (serve r a w)))"
proof (cases r)
  case Health
  then show ?thesis
    by (subst writes_among_storage_calls) (simp add: health_events)
next
  case List
  then show ?thesis
    by (subst writes_among_storage_calls) (simp add: list_blobs_events)
next
  case Upload
  with assms show ?thesis by simp
qed

lemma read_depends_on_storage:
  assumes "r \<noteq> Upload" and same: "storage w' = storage w"
  shows "status_code (fst (serve r a w')) = status_code (fst (serve r a w))
         \<and> data_fields (fst (serve r a w')) = data_fields (fst (serve r a w))"
proof (cases r)
  case Health
  obtain res s where call:
    "sdk_get_container_properties (blob_service_client a) (CONTAINER_NAME a) (storage w)
       = (res, s)"
    by (cases "sdk_get_container_properties (blob_service_client a) (CONTAINER_NAME a)
                 (storage w)")
  with same have call':
    "sdk_get_container_properties (blob_service_client a) (CONTAINER_NAME a) (storage w')
       = (res, s)"
    by simp
  show ?thesis
  proof (cases res)
    case (Inl e)
    with call call' health_failed [of a w e s] health_failed [of a w' e s] Health
    show ?thesis
      by (simp add: data_fields_def status_with_status json_fields_with_status
            json_fields_jsonify)
  next
    case (Inr u)
    with call call' health_ok [of a w u s] health_ok [of a w' u s] Health
    show ?thesis
      by (simp add: data_fields_def status_jsonify json_fields_jsonify)
  qed
next
  case List
  obtain res s where call:
    "sdk_list_blobs (blob_service_client a) (CONTAINER_NAME a) (storage w) = (res, s)"
    by (cases "sdk_list_blobs (blob_service_client a) (CONTAINER_NAME a) (storage w)")
  with same have call':
    "sdk_list_blobs (blob_service_client a) (CONTAINER_NAME a) (storage w') = (res, s)"
    by simp
  show ?thesis
  proof (cases res)
    case (Inl e)
    with call call' list_blobs_failed [of a w e s] list_blobs_failed [of a w' e s] List
    show ?thesis
      by (simp add: data_fields_def status_with_status json_fields_with_status
            json_fields_jsonify)
  next
    case (Inr listing)
    with call call' list_blobs_ok [of a w listing s] list_blobs_ok [of a w' listing s] List
    show ?thesis
      by (simp add: data_fields_def status_jsonify json_fields_jsonify)
  qed
next
  case Upload
  with assms show ?thesis by simp
qed

lemma read_preserves_storage:
  assumes "r \<noteq> Upload" and pres: "reads_preserve (blob_service_client a)"
  shows "storage (snd (serve r a w)) = storage w"
proof (cases r)
  case Health
  obtain res s where call:
    "sdk_get_container_properties (blob_service_client a) (CONTAINER_NAME a) (storage w)
       = (res, s)"
    by (cases "sdk_get_container_properties (blob_service_client a) (CONTAINER_NAME a)
                 (storage w)")
  with pres have s: "s = storage w"
    by (auto simp add: reads_preserve_def dest: arg_cong [where f = snd])
  show ?thesis
  proof (cases res)
    case (Inl e)
    with call health_failed [of a w e s] Health s show ?thesis by simp
  next
    case (Inr u)
    with call health_ok [of a w u s] Health s show ?thesis by simp
  qed
next
  case List
  obtain res s where call:
    "sdk_list_blobs (blob_service_client a) (CONTAINER_NAME a) (storage w) = (res, s)"
    by (cases "sdk_list_blobs (blob_service_client a) (CONTAINER_NAME a) (storage w)")
  with pres have s: "s = storage w"
    by (auto simp add: reads_preserve_def dest: arg_cong [where f = snd])
  show ?thesis
  proof (cases res)
    case (Inl e)
    with call list_blobs_failed [of a w e s] List s show ?thesis by simp
  next
    case (Inr listing)
    with call list_blobs_ok [of a w listing s] List s show ?thesis by simp
  qed
next
  case Upload
  with assms show ?thesis by simp
qed

lemma mem_service_reads_preserve: "reads_preserve mem_service"
  by (simp add: reads_preserve_def mem_service_def mem_get_container_properties_def
        mem_list_blobs_def split: option.splits)

text \<open>
  Claim C9. \<open>GET /health\<close> and \<open>GET /list\<close> make no writing storage call, and their status
  and data fields (all fields but \<open>timestamp\<close>) are the same in any two worlds with the
  same storage state. Against a storage client whose reads leave the state as it was,
  the state after either request is the state before, so either request answers the
  same after any of the two as it does before it.
\<close>

theorem reads_are_read_only:
  "r \<noteq> Upload
   \<longrightarrow> \<not> list_ex is_write (new_events w (snd (serve r a w)))
       \<and> (storage w' = storage w
          \<longrightarrow> status_code (fst (serve r a w')) = status_code (fst (serve r a w))
              \<and> data_fields (fst (serve r a w')) = data_fields (fst (serve r a w)))
       \<and> (reads_preserve (blob_service_client a)
          \<longrightarrow> storage (snd (serve r a w)) = storage w
              \<and> (\<forall>r'. r' \<noteq> Upload
                    \<longrightarrow> status_code (fst (serve r a (snd (serve r' a w))))
                          = status_code (fst (serve r a w))
                        \<and> data_fields (fst (serve r a (snd (serve r' a w))))
                          = data_fields (fst (serve r a w))))"
proof (intro impI conjI allI)
  assume r: "r \<noteq> Upload"
  show "\<not> list_ex is_write (new_events w (snd (serve r a w)))"
    by (rule read_makes_no_write [OF r])
  {
    assume "storage w' = storage w"
    from read_depends_on_storage [OF r this]
    show "status_code (fst (serve r a w')) = status_code (fst (serve r a w))"
      and "data_fields (fst (serve r a w')) = data_fields (fst (serve r a w))"
      by simp_all
  }
  assume pres: "reads_preserve (blob_service_client a)"
  show "storage (snd (serve r a w)) = storage w"
    by (rule read_preserves_storage [OF r pres])
  fix r' :: route
  assume "r' \<noteq> Upload"
  from read_preserves_storage [OF this pres]
  have "storage (snd (serve r' a w)) = storage w" .
  from read_depends_on_storage [OF r this]
  show "status_code (fst (serve r a (snd (serve r' a w)))) = status_code (fst (serve r a w))"
    and "data_fields (fst (serve r a (snd (serve r' a w)))) = data_fields (fst (serve r a w))"
    by simp_all
qed

text \<open>
  The theorem at the example account: a listing answers the same after a health check.
\<close>

theorem reads_are_read_only_witness:
  "List \<noteq> Upload \<and> Health \<noteq> Upload
   \<and> reads_preserve (blob_service_client example_app)
   \<and> storage (snd (serve List example_app (example_world example_store))) = example_store
   \<and> status_code
        (fst (serve List example_app
                (snd (serve Health example_app (example_world example_store)))))
       = status_code (fst (serve List example_app (example_world example_store)))
   \<and> data_fields
        (fst (serve List example_app
                (snd (serve Health example_app (example_world example_store)))))
       = data_fields (fst (serve List example_app (example_world example_store)))
   \<and> \<not> list_ex is_write
          (new_events (example_world example_store)
             (snd (serve List example_app (example_world example_store))))"
proof -
  have pres: "reads_preserve (blob_service_client example_app)"
    by (simp add: example_app_def mem_service_reads_preserve)
  have st: "storage (example_world example_store) = example_store"
    by (simp add: example_world_def)
  from reads_are_read_only [of List "example_world example_store" example_app
      "example_world example_store"] pres st
  have quiet: "\<not> list_ex is_write
          (new_events (example_world example_store)
             (snd (serve List example_app (example_world example_store))))"
    and kept: "storage (snd (serve List example_app (example_world example_store)))
                 = example_store"
    and any: "\<forall>r'. r' \<noteq> Upload
       \<longrightarrow> status_code
             (fst (serve List example_app (snd (serve r' example_app
                                                 (example_world example_store)))))
            = status_code (fst (serve List example_app (example_world example_store)))
           \<and> data_fields
               (fst (serve List example_app (snd (serve r' example_app
                                                   (example_world example_store)))))
              = data_fields (fst (serve List example_app (example_world example_store)))"
    by simp_all
  from any have "Health \<noteq> Upload
       \<longrightarrow> status_code
             (fst (serve List example_app (snd (serve Health example_app
                                                 (example_world example_store)))))
            = status_code (fst (serve List example_app (example_world example_store)))
           \<and> data_fields
               (fst (serve List example_app (snd (serve Health example_app
                                                   (example_world example_store)))))
              = data_fields (fst (serve List example_app (example_world example_store)))"
    by (rule spec)
  with quiet kept pres show ?thesis
    by simp
qed

end
